theory Spec2Isabelle
  imports Complex_Main "HOL-Library.Sublist"
begin

section \<open>Python strings\<close>

text \<open>
  A Python \<open>str\<close> is a sequence of Unicode code points, so a string is a list of
  natural numbers (the code points) and not a list of bytes: the source displays and
  strips characters such as U+20B9 (the rupee sign). \<open>py\<close> turns an ASCII literal into
  such a string.
\<close>

type_synonym pystr = "nat list"

definition py :: "string \<Rightarrow> pystr" where
  "py s = map of_char s"

text \<open>
  \<open>str.isspace\<close> on one character: the code points that \<open>str.strip()\<close> removes when it
  is called with no argument (CPython, Unicode 14).
\<close>

definition isspace :: "nat \<Rightarrow> bool" where
  "isspace c \<longleftrightarrow> c \<in> set [9, 10, 11, 12, 13, 28, 29, 30, 31, 32, 133, 160, 5760,
     8192, 8193, 8194, 8195, 8196, 8197, 8198, 8199, 8200, 8201, 8202,
     8232, 8233, 8239, 8287, 12288]"

text \<open>\<open>s.strip()\<close>: whitespace is removed at both ends, never inside.\<close>

definition strip :: "pystr \<Rightarrow> pystr" where
  "strip s = rev (dropWhile isspace (rev (dropWhile isspace s)))"

text \<open>
  \<open>s.split(sep)\<close> for a separator of one character: one segment more than there are
  separators, empty segments kept; \<open>''.split(sep)\<close> is \<open>['']\<close>. The result is never the
  empty list, so the first branch of the \<open>case\<close> is never taken.
\<close>

fun split :: "pystr \<Rightarrow> nat \<Rightarrow> pystr list" where
  "split [] sep = [[]]"
| "split (c # cs) sep =
     (if c = sep then [] # split cs sep
      else (case split cs sep of [] \<Rightarrow> [[c]] | seg # segs \<Rightarrow> (c # seg) # segs))"

text \<open>
  \<open>xs[start:stop]\<close>: a negative bound counts from the end, both bounds are clipped to
  the list, and an empty range gives the empty list (a slice never raises).
\<close>

definition py_slice :: "'a list \<Rightarrow> int \<Rightarrow> int \<Rightarrow> 'a list" where
  "py_slice xs start stop =
     (let n = int (length xs);
          lo = (if start < 0 then max 0 (n + start) else min start n);
          hi = (if stop < 0 then max 0 (n + stop) else min stop n)
      in take (nat (hi - lo)) (drop (nat lo) xs))"

text \<open>\<open>sep.join(xs)\<close>.\<close>

fun join :: "pystr \<Rightarrow> pystr list \<Rightarrow> pystr" where
  "join sep [] = []"
| "join sep [x] = x"
| "join sep (x # y # ys) = x @ sep @ join sep (y # ys)"

text \<open>\<open>str(n)\<close> for a natural number: its decimal digits.\<close>

function str_nat :: "nat \<Rightarrow> pystr" where
  "str_nat n = (if n < 10 then [48 + n] else str_nat (n div 10) @ [48 + n mod 10])"
  by pat_completeness auto
termination
  by (relation "measure id") auto

declare str_nat.simps [simp del]

definition NEWLINE :: nat where "NEWLINE = 10"
definition BAR :: nat where "BAR = 124"
definition DOT :: nat where "DOT = 46"
definition COMMA :: nat where "COMMA = 44"
definition QUOTE :: nat where "QUOTE = 34"

section \<open>The regular expression of the coercion\<close>

text \<open>
  In a \<open>str\<close> pattern \<open>\d\<close> matches every Unicode decimal digit (category Nd), not only
  \<open>0\<close> to \<open>9\<close>. The table lists the ranges of Nd (Unicode 14, as \<open>unicodedata\<close> of
  CPython 3.11 has them).
\<close>

definition Nd_ranges :: "(nat \<times> nat) list" where
  "Nd_ranges = [(48, 57), (1632, 1641), (1776, 1785), (1984, 1993), (2406, 2415),
     (2534, 2543), (2662, 2671), (2790, 2799), (2918, 2927), (3046, 3055), (3174, 3183),
     (3302, 3311), (3430, 3439), (3558, 3567), (3664, 3673), (3792, 3801), (3872, 3881),
     (4160, 4169), (4240, 4249), (6112, 6121), (6160, 6169), (6470, 6479), (6608, 6617),
     (6784, 6793), (6800, 6809), (6992, 7001), (7088, 7097), (7232, 7241), (7248, 7257),
     (42528, 42537), (43216, 43225), (43264, 43273), (43472, 43481), (43504, 43513),
     (43600, 43609), (44016, 44025), (65296, 65305), (66720, 66729), (68912, 68921),
     (69734, 69743), (69872, 69881), (69942, 69951), (70096, 70105), (70384, 70393),
     (70736, 70745), (70864, 70873), (71248, 71257), (71360, 71369), (71472, 71481),
     (71904, 71913), (72016, 72025), (72784, 72793), (73040, 73049), (73120, 73129),
     (92768, 92777), (92864, 92873), (93008, 93017), (120782, 120831), (123200, 123209),
     (123632, 123641), (125264, 125273), (130032, 130041)]"

definition isdecimal :: "nat \<Rightarrow> bool" where
  "isdecimal c \<longleftrightarrow> list_ex (\<lambda>(lo, hi). lo \<le> c \<and> c \<le> hi) Nd_ranges"

text \<open>The character class \<open>[^\d\.]\<close>: neither a decimal digit nor the full stop.\<close>

definition non_numeric :: "nat \<Rightarrow> bool" where
  "non_numeric c \<longleftrightarrow> \<not> (isdecimal c \<or> c = DOT)"

text \<open>
  \<open>re.sub('[cls]+', '', s)\<close> for a character class \<open>cls\<close>: scanning from the left, a
  character outside the class is copied; at a character of the class the greedy \<open>+\<close>
  matches the whole run of such characters, which is replaced by the empty string.
\<close>

function re_sub_runs :: "(nat \<Rightarrow> bool) \<Rightarrow> pystr \<Rightarrow> pystr" where
  "re_sub_runs cls [] = []"
| "re_sub_runs cls (c # cs) =
     (if cls c then re_sub_runs cls (dropWhile cls cs) else c # re_sub_runs cls cs)"
  by pat_completeness auto
termination
  by (relation "measure (\<lambda>(cls, s). length s)")
     (auto simp: less_Suc_eq_le length_dropWhile_le)

section \<open>Cells and the numeric coercion of pandas\<close>

text \<open>
  A cell of the data frame: a string, an integer, a float or a missing value (pandas
  holds \<open>None\<close> in an object column and NaN in a float column; both are \<open>Missing\<close>).
  A float is given by the decimal number it was read from: rounding to the nearest
  double and the range of a double are not modelled.
\<close>

datatype cell = Str pystr | IntVal nat | FloatVal rat | Missing

text \<open>\<open>Series.str.replace(r'[^\d\.]+', '', regex=True)\<close>: an element that is not a
  string becomes a missing value.\<close>

fun str_replace_cell :: "cell \<Rightarrow> cell" where
  "str_replace_cell (Str s) = Str (re_sub_runs non_numeric s)"
| "str_replace_cell c = Missing"

definition str_replace :: "cell list \<Rightarrow> cell list" where
  "str_replace col = map str_replace_cell col"

definition isdigit_ascii :: "nat \<Rightarrow> bool" where
  "isdigit_ascii c \<longleftrightarrow> 48 \<le> c \<and> c \<le> 57"

definition digits_value :: "pystr \<Rightarrow> nat" where
  "digits_value ds = foldl (\<lambda>a c. 10 * a + (c - 48)) 0 ds"

text \<open>
  What \<open>pd.to_numeric(..., errors='coerce')\<close> makes of one string. The parser of pandas
  reads ASCII digits, then optionally a full stop and more ASCII digits; it needs at
  least one digit and must consume the whole string. A string without a full stop is
  an integer. The empty string and every string that does not parse give a missing
  value: with \<open>errors='coerce'\<close> nothing is raised. (Signs, exponents, blanks and the
  words \<open>inf\<close> and \<open>nan\<close>, which the parser also reads, cannot occur here: the regular
  expression has removed every character but digits and full stops.)
\<close>

definition floatify :: "pystr \<Rightarrow> cell" where
  "floatify s =
     (let ip = takeWhile isdigit_ascii s; rest = dropWhile isdigit_ascii s
      in if rest = [] then (if ip = [] then Missing else IntVal (digits_value ip))
         else if hd rest = DOT \<and> list_all isdigit_ascii (tl rest) \<and> (ip \<noteq> [] \<or> tl rest \<noteq> [])
           then FloatVal (of_nat (digits_value (ip @ tl rest)) / 10 ^ length (tl rest))
           else Missing)"

fun to_numeric_cell :: "cell \<Rightarrow> cell" where
  "to_numeric_cell (Str s) = floatify s"
| "to_numeric_cell c = c"

fun is_int64 :: "cell \<Rightarrow> bool" where
  "is_int64 (IntVal n) = (n < 2 ^ 64)"
| "is_int64 c = False"

fun as_float :: "cell \<Rightarrow> cell" where
  "as_float (IntVal n) = FloatVal (of_nat n)"
| "as_float c = c"

text \<open>
  \<open>pd.to_numeric\<close> on a column: the column stays an integer column when every element
  is an integer that fits 64 bits; otherwise it is a float column, in which the
  integers are floats of the same value.
\<close>

definition to_numeric :: "cell list \<Rightarrow> cell list" where
  "to_numeric col =
     (let vals = map to_numeric_cell col
      in if list_all is_int64 vals then vals else map as_float vals)"

text \<open>The coercion of lines 74 and 75 on one cell, before the column's type is settled.\<close>

definition coerce_cell :: "pystr \<Rightarrow> cell" where
  "coerce_cell s = to_numeric_cell (str_replace_cell (Str s))"

text \<open>The number a cell holds, if it holds one.\<close>

fun number_of :: "cell \<Rightarrow> rat option" where
  "number_of (IntVal n) = Some (of_nat n)"
| "number_of (FloatVal r) = Some r"
| "number_of c = None"

section \<open>The data frame\<close>

datatype error = ValueError pystr | KeyError pystr

text \<open>\<open>str(e)\<close>: a \<open>KeyError\<close> prints the representation of its key.\<close>

fun message :: "error \<Rightarrow> pystr" where
  "message (ValueError m) = m"
| "message (KeyError k) = py [CHR 0x27] @ k @ py [CHR 0x27]"

record dataframe =
  columns :: "pystr list"
  data :: "cell list list"

text \<open>
  \<open>pd.DataFrame(rows, columns=cols)\<close> for a list of lists of strings. An empty list
  gives an empty frame with the given columns. Otherwise pandas makes an object array
  as wide as the longest row, padding shorter rows with \<open>None\<close>, and raises a
  \<open>ValueError\<close> when that width is not the number of column names.
\<close>

definition DataFrame :: "pystr list list \<Rightarrow> pystr list \<Rightarrow> error + dataframe" where
  "DataFrame rows cols =
     (if rows = [] then Inr \<lparr>columns = cols, data = []\<rparr>
      else let k = foldr max (map length rows) 0
        in if length cols \<noteq> k
           then Inl (ValueError (str_nat (length cols) @ py '' columns passed, passed data had ''
                  @ str_nat k @ py '' columns''))
           else Inr \<lparr>columns = cols,
                     data = map (\<lambda>r. map Str r @ replicate (k - length r) Missing) rows\<rparr>)"

fun index_of :: "pystr list \<Rightarrow> pystr \<Rightarrow> nat option" where
  "index_of [] name = None"
| "index_of (c # cs) name = (if c = name then Some 0 else map_option Suc (index_of cs name))"

text \<open>\<open>df[name]\<close>: a \<open>KeyError\<close> when there is no such column.\<close>

definition get_column :: "dataframe \<Rightarrow> pystr \<Rightarrow> error + cell list" where
  "get_column df name =
     (case index_of (columns df) name of
        None \<Rightarrow> Inl (KeyError name)
      | Some i \<Rightarrow> Inr (map (\<lambda>r. r ! i) (data df)))"

text \<open>\<open>df[name] = col\<close>, for a column of the frame's own length: the column is
  replaced, or added at the right when the name is new.\<close>

definition set_column :: "dataframe \<Rightarrow> pystr \<Rightarrow> cell list \<Rightarrow> dataframe" where
  "set_column df name col =
     (case index_of (columns df) name of
        None \<Rightarrow> \<lparr>columns = columns df @ [name], data = map2 (\<lambda>r v. r @ [v]) (data df) col\<rparr>
      | Some i \<Rightarrow> \<lparr>columns = columns df, data = map2 (\<lambda>r v. r[i := v]) (data df) col\<rparr>)"

section \<open>The Tabulator: lines 69 to 75 of app.py\<close>

definition TRAVEL_TYPE :: pystr where "TRAVEL_TYPE = py ''Travel Type''"
definition PRICE :: pystr where "PRICE = py ''Price (Estimated)''"
definition TIME :: pystr where "TIME = py ''Time (Estimated)''"
definition DESCRIPTION :: pystr where "DESCRIPTION = py ''Description''"
definition COMFORT :: pystr where "COMFORT = py ''Comfort Level''"
definition DIRECTNESS :: pystr where "DIRECTNESS = py ''Directness''"

definition column_names :: "pystr list" where
  "column_names = [TRAVEL_TYPE, PRICE, TIME, DESCRIPTION, COMFORT, DIRECTNESS]"

text \<open>\<open>table_data = recommendations.strip().split('\n')[2:-1]\<close>\<close>

definition table_data :: "pystr \<Rightarrow> pystr list" where
  "table_data recommendations = py_slice (split (strip recommendations) NEWLINE) 2 (- 1)"

text \<open>\<open>row.strip().split('|')[1:-1]\<close>\<close>

definition row_fields :: "pystr \<Rightarrow> pystr list" where
  "row_fields row = py_slice (split (strip row) BAR) 1 (- 1)"

text \<open>\<open>rows = [row.strip().split('|')[1:-1] for row in table_data]\<close>\<close>

definition rows_of :: "pystr list \<Rightarrow> pystr list list" where
  "rows_of td = map row_fields td"

text \<open>\<open>df[name] = pd.to_numeric(df[name].str.replace(...), errors='coerce')\<close>\<close>

definition coerce_column :: "dataframe \<Rightarrow> pystr \<Rightarrow> error + dataframe" where
  "coerce_column df name =
     (case get_column df name of
        Inl e \<Rightarrow> Inl e
      | Inr col \<Rightarrow> Inr (set_column df name (to_numeric (str_replace col))))"

definition tabulate :: "pystr \<Rightarrow> error + dataframe" where
  "tabulate recommendations =
     (case DataFrame (rows_of (table_data recommendations)) column_names of
        Inl e \<Rightarrow> Inl e
      | Inr df \<Rightarrow>
          (case coerce_column df PRICE of
             Inl e \<Rightarrow> Inl e
           | Inr df' \<Rightarrow> coerce_column df' TIME))"

section \<open>Charts and the CSV export: lines 77 to 90 of app.py\<close>

text \<open>A bar chart: the layout's three titles and the two series of the one \<open>go.Bar\<close>.\<close>

record figure =
  title :: pystr
  xaxis_title :: pystr
  yaxis_title :: pystr
  bar_x :: "cell list"
  bar_y :: "cell list"

text \<open>What the page shows, in the order the calls are made. The download button has
  its label, its data, the file name and the MIME type.\<close>

datatype element =
    StWrite pystr
  | StError pystr
  | StPlotlyChart figure
  | StDownloadButton pystr pystr pystr pystr

text \<open>\<open>os.linesep\<close>, the line terminator \<open>to_csv\<close> uses when none is given.\<close>

datatype platform = Posix | Windows

fun linesep :: "platform \<Rightarrow> pystr" where
  "linesep Posix = [10]"
| "linesep Windows = [13, 10]"

text \<open>
  The \<open>csv\<close> writer with minimal quoting, as \<open>to_csv\<close> configures it: a field is put
  in double quotes when it holds the delimiter, a double quote or a character of the
  line terminator, and a double quote inside it is doubled. (A row that is one empty
  field is quoted too; the frames written here have six fields in every row.)
\<close>

definition needs_quotes :: "pystr \<Rightarrow> pystr \<Rightarrow> bool" where
  "needs_quotes lt s \<longleftrightarrow> list_ex (\<lambda>c. c = COMMA \<or> c = QUOTE \<or> c \<in> set lt) s"

definition csv_field :: "pystr \<Rightarrow> pystr \<Rightarrow> pystr" where
  "csv_field lt s =
     (if needs_quotes lt s
      then [QUOTE] @ concat (map (\<lambda>c. if c = QUOTE then [QUOTE, QUOTE] else [c]) s) @ [QUOTE]
      else s)"

definition csv_row :: "pystr \<Rightarrow> pystr list \<Rightarrow> pystr" where
  "csv_row lt row = join [COMMA] (map (csv_field lt) row) @ lt"

text \<open>
  The text of a cell in the CSV: a string as it is, an integer in decimal, a missing
  value as the empty string. The text of a float (the shortest representation of the
  double) is a parameter of the model.
\<close>

fun cell_text :: "(rat \<Rightarrow> pystr) \<Rightarrow> cell \<Rightarrow> pystr" where
  "cell_text repr_float (Str s) = s"
| "cell_text repr_float (IntVal n) = str_nat n"
| "cell_text repr_float (FloatVal r) = repr_float r"
| "cell_text repr_float Missing = []"

text \<open>\<open>df.to_csv(csv_buffer, index=False)\<close>: the header row, then one row for each record.\<close>

definition to_csv :: "platform \<Rightarrow> (rat \<Rightarrow> pystr) \<Rightarrow> dataframe \<Rightarrow> pystr" where
  "to_csv os repr_float df =
     csv_row (linesep os) (columns df)
     @ concat (map (\<lambda>r. csv_row (linesep os) (map (cell_text repr_float) r)) (data df))"

definition fig_price :: "cell list \<Rightarrow> cell list \<Rightarrow> figure" where
  "fig_price xs ys =
     \<lparr>title = [128176] @ py '' Price Comparison'', xaxis_title = py ''Travel Type'',
      yaxis_title = py ''Price ('' @ [8377] @ py '')'', bar_x = xs, bar_y = ys\<rparr>"

definition fig_time :: "cell list \<Rightarrow> cell list \<Rightarrow> figure" where
  "fig_time xs ys =
     \<lparr>title = [9203] @ py '' Time Comparison'', xaxis_title = py ''Travel Type'',
      yaxis_title = py ''Time (Hours)'', bar_x = xs, bar_y = ys\<rparr>"

definition download_button :: "pystr \<Rightarrow> element" where
  "download_button csv =
     StDownloadButton ([128229] @ py '' Download Travel Data as CSV'') csv
       (py ''travel_data.csv'') (py ''text/csv'')"

text \<open>\<open>st.error(f"... Error processing data or creating charts: {e}")\<close>\<close>

definition processing_error :: "error \<Rightarrow> element" where
  "processing_error e =
     StError ([9888, 65039] @ py '' Error processing data or creating charts: '' @ message e)"

text \<open>
  The \<open>try\<close> block of lines 68 to 93. What was shown before an exception stays on the
  page; the handler adds the error message.
\<close>

definition process_data :: "platform \<Rightarrow> (rat \<Rightarrow> pystr) \<Rightarrow> pystr \<Rightarrow> element list" where
  "process_data os repr_float recommendations =
     (case tabulate recommendations of
        Inl e \<Rightarrow> [processing_error e]
      | Inr df \<Rightarrow>
         (case get_column df TRAVEL_TYPE of
            Inl e \<Rightarrow> [processing_error e]
          | Inr xs \<Rightarrow>
             (case get_column df PRICE of
                Inl e \<Rightarrow> [processing_error e]
              | Inr price_col \<Rightarrow>
                 StPlotlyChart (fig_price xs price_col) #
                 (case get_column df TIME of
                    Inl e \<Rightarrow> [processing_error e]
                  | Inr time_col \<Rightarrow>
                     [StPlotlyChart (fig_time xs time_col),
                      download_button (to_csv os repr_float df)]))))"

section \<open>The Composer: get_travel_recommendations\<close>

text \<open>
  The hosted model is outside the program: a chain is a function that says, for a
  source and a destination, what \<open>travel_chain.run\<close> does. It returns a string or a
  dictionary of strings, or raises an \<open>Exception\<close> whose \<open>str\<close> is the cause.
\<close>

datatype response = StrResponse pystr | DictResponse "(pystr \<times> pystr) list"

datatype run_outcome = Returns response | Raises pystr

type_synonym chain = "pystr \<Rightarrow> pystr \<Rightarrow> run_outcome"

text \<open>A call to the text-generation service, with its two inputs.\<close>

type_synonym call = "pystr \<times> pystr"

text \<open>
  The function returns its string and the log of the calls it has made. A dictionary
  without the key \<open>text\<close> raises a \<open>KeyError\<close> inside the \<open>try\<close>, which the handler
  formats like any other exception.
\<close>

definition get_travel_recommendations :: "chain \<Rightarrow> pystr \<Rightarrow> pystr \<Rightarrow> call list \<Rightarrow> pystr \<times> call list" where
  "get_travel_recommendations travel_chain source destination calls =
     (case travel_chain source destination of
        Returns (StrResponse s) \<Rightarrow> s
      | Returns (DictResponse d) \<Rightarrow>
          (case map_of d (py ''text'') of
             Some s \<Rightarrow> s
           | None \<Rightarrow> py ''An error occurred: '' @ message (KeyError (py ''text'')))
      | Raises cause \<Rightarrow> py ''An error occurred: '' @ cause,
      calls @ [(source, destination)])"

section \<open>The button: lines 60 to 96 of app.py\<close>

record app =
  calls :: "call list"
  page :: "element list"

definition validation_error :: element where
  "validation_error = StError ([10060] @ py '' Please enter both source and destination cities.'')"

text \<open>One press of the button, from a page with no calls made. A string is true when it
  is not empty.\<close>

definition on_click :: "platform \<Rightarrow> (rat \<Rightarrow> pystr) \<Rightarrow> chain \<Rightarrow> pystr \<Rightarrow> pystr \<Rightarrow> app" where
  "on_click os repr_float travel_chain source destination =
     (if source \<noteq> [] \<and> destination \<noteq> [] then
        (let (recommendations, made) = get_travel_recommendations travel_chain source destination []
         in \<lparr>calls = made,
             page = [StWrite (py ''Generating travel options from **'' @ source @ py ''** to **''
                       @ destination @ py ''**...''),
                     StWrite (py ''### Travel Recommendations:''),
                     StWrite recommendations]
                    @ process_data os repr_float recommendations\<rparr>)
      else \<lparr>calls = [], page = [validation_error]\<rparr>)"

section \<open>Well-formed responses\<close>

text \<open>
  The shape of the reply that the specification calls a well-formed markdown table.
  These definitions follow the specification's words, not the code: a data row is its
  cells between vertical bars, with a bar at each end; a cell holds no bar and no
  newline; a table is a header line, a separator line and the data rows, one per line.
\<close>

definition markdown_row :: "pystr list \<Rightarrow> pystr" where
  "markdown_row cells = [BAR] @ join [BAR] cells @ [BAR]"

definition six_columns :: "pystr list \<Rightarrow> bool" where
  "six_columns cells \<longleftrightarrow>
     length cells = 6 \<and> list_all (\<lambda>c. BAR \<notin> set c \<and> NEWLINE \<notin> set c) cells"

definition markdown_table :: "pystr \<Rightarrow> pystr \<Rightarrow> pystr list list \<Rightarrow> pystr" where
  "markdown_table header separator cellss =
     join [NEWLINE] (header # separator # map markdown_row cellss)"

section \<open>Example responses\<close>

text \<open>A reply of the expected shape: the header, the separator and the five travel modes.
  The cells keep the blanks that a model writes around them.\<close>

definition example_header :: pystr where
  "example_header = py ''| Travel Type | Price | Time | Description | Comfort | Directness |''"

definition example_separator :: pystr where
  "example_separator = py ''|---|---|---|---|---|---|''"

definition example_cells :: "pystr list list" where
  "example_cells =
     [[py '' Cab/Taxi '', py '' '' @ [8377] @ py ''1200 '', py '' 2.5 hrs '', py '' door to door '',
       py '' 4 '', py '' Direct ''],
      [py '' Train '', py '' '' @ [8377] @ py ''300 '', py '' 3 hrs '', py '' frequent '',
       py '' 3 '', py '' Direct ''],
      [py '' Bus '', py '' '' @ [8377] @ py ''250 '', py '' 4 hrs '', py '' slow '',
       py '' 2 '', py '' Direct ''],
      [py '' Flight '', py '' N/A '', py '' N/A '', py '' no airport '',
       py '' - '', py '' Indirect ''],
      [py '' Ola/Uber '', py '' '' @ [8377] @ py ''1500 '', py '' 2.5 hrs '', py '' app cab '',
       py '' 4 '', py '' Direct '']]"

definition example_table :: pystr where
  "example_table = markdown_table example_header example_separator example_cells"

definition example_trailer :: pystr where
  "example_trailer = py ''Note: all prices are estimates.''"

text \<open>The example table followed by a line of prose, each ended by a newline, and the
  frame of five records that the Tabulator builds from it.\<close>

definition example_reply :: pystr where
  "example_reply = example_table @ [NEWLINE] @ example_trailer @ [NEWLINE]"

definition example_frame :: dataframe where
  "example_frame =
     \<lparr>columns = column_names,
      data =
        [[Str (py '' Cab/Taxi ''), FloatVal 1200, FloatVal (5 / 2), Str (py '' door to door ''),
          Str (py '' 4 ''), Str (py '' Direct '')],
         [Str (py '' Train ''), FloatVal 300, FloatVal 3, Str (py '' frequent ''),
          Str (py '' 3 ''), Str (py '' Direct '')],
         [Str (py '' Bus ''), FloatVal 250, FloatVal 4, Str (py '' slow ''),
          Str (py '' 2 ''), Str (py '' Direct '')],
         [Str (py '' Flight ''), Missing, Missing, Str (py '' no airport ''),
          Str (py '' - ''), Str (py '' Indirect '')],
         [Str (py '' Ola/Uber ''), FloatVal 1500, FloatVal (5 / 2), Str (py '' app cab ''),
          Str (py '' 4 ''), Str (py '' Direct '')]]\<rparr>"

section \<open>Slices and splitting\<close>

lemma split_not_Nil: "split s sep \<noteq> []"
  by (induction s) (auto split: list.splits)

lemma py_slice_2_m1: "py_slice xs 2 (- 1) = butlast (drop 2 xs)"
proof -
  have "nat (int (length xs) - 3) = length xs - 3" by arith
  then show ?thesis
    by (auto simp: py_slice_def Let_def butlast_conv_take min_def max_def)
qed

lemma py_slice_1_m1: "py_slice xs 1 (- 1) = butlast (tl xs)"
proof -
  have "nat (int (length xs) - 2) = length xs - 2" by arith
  then show ?thesis
    by (auto simp: py_slice_def Let_def butlast_conv_take min_def max_def drop_Suc
        numeral_2_eq_2)
qed

text \<open>Stripping a line changes only the first and the last segment of its split.\<close>

lemma tl_split_dropWhile:
  "\<not> P sep \<Longrightarrow> tl (split (dropWhile P s) sep) = tl (split s sep)"
  by (induction s) (auto split: list.splits simp: split_not_Nil)

lemma split_snoc:
  "c \<noteq> sep \<Longrightarrow> split (s @ [c]) sep = butlast (split s sep) @ [last (split s sep) @ [c]]"
  by (induction s) (auto split: list.splits simp: split_not_Nil)

lemma butlast_split_snoc:
  "c \<noteq> sep \<Longrightarrow> butlast (split (s @ [c]) sep) = butlast (split s sep)"
  by (simp add: split_snoc)

lemma butlast_split_rstrip:
  "\<not> P sep \<Longrightarrow> butlast (split (rev (dropWhile P (rev s))) sep) = butlast (split s sep)"
proof (induction s rule: rev_induct)
  case Nil
  then show ?case by simp
next
  case (snoc x xs)
  show ?case
  proof (cases "P x")
    case True
    with snoc.prems have "x \<noteq> sep" by auto
    with True snoc show ?thesis by (simp add: butlast_split_snoc)
  next
    case False
    then show ?thesis by simp
  qed
qed

lemma inner_segments_strip:
  assumes "\<not> isspace sep"
  shows "butlast (tl (split (strip row) sep)) = butlast (tl (split row sep))"
proof -
  have "butlast (tl (split (strip row) sep)) = tl (butlast (split (strip row) sep))"
    by (simp add: butlast_tl)
  also have "\<dots> = tl (butlast (split (dropWhile isspace row) sep))"
    unfolding strip_def using assms by (simp add: butlast_split_rstrip)
  also have "\<dots> = butlast (tl (split (dropWhile isspace row) sep))"
    by (simp add: butlast_tl)
  also have "\<dots> = butlast (tl (split row sep))"
    using assms by (simp add: tl_split_dropWhile)
  finally show ?thesis .
qed

lemma not_isspace_BAR: "\<not> isspace BAR"
  by (simp add: isspace_def BAR_def)

section \<open>C4: line selection and row splitting\<close>

text \<open>
  C4, as the claim states it: the response itself is split into lines, and the first
  two lines and the final line are discarded. The code strips the response first, so
  on a response that ends with a newline the final line of the claim is the empty
  string after that newline, while the code discards the last line of text. On the
  four lines \<open>h\<close>, \<open>s\<close>, \<open>r1\<close>, \<open>r2\<close>, each ended by a newline, the claim keeps \<open>r1\<close> and
  \<open>r2\<close>; the code keeps \<open>r1\<close> only.
\<close>

theorem C4_unstripped_counterexample:
  "table_data (py ''h'' @ [NEWLINE] @ py ''s'' @ [NEWLINE] @ py ''r1'' @ [NEWLINE] @ py ''r2'' @ [NEWLINE])
     = [py ''r1'']
   \<and> butlast (drop 2 (split (py ''h'' @ [NEWLINE] @ py ''s'' @ [NEWLINE] @ py ''r1'' @ [NEWLINE]
         @ py ''r2'' @ [NEWLINE]) NEWLINE))
     = [py ''r1'', py ''r2'']"
  by (simp add: table_data_def py_slice_2_m1 strip_def isspace_def py_def NEWLINE_def)

text \<open>
  C4, amended: the line selection strips leading and trailing whitespace from the
  whole response, splits the result into lines and discards exactly the first two
  lines and the final line (everything, when there are fewer than three lines). The
  row splitting splits each remaining line on the vertical bar and drops the first and
  the last segment, keeping the segments in between; stripping the line beforehand, as
  the code does, does not change the segments kept.
\<close>

theorem C4_line_selection_and_row_splitting:
  "table_data raw = butlast (drop 2 (split (strip raw) NEWLINE))
   \<and> length (table_data raw) = length (split (strip raw) NEWLINE) - 3
   \<and> row_fields row = butlast (tl (split (strip row) BAR))
   \<and> row_fields row = butlast (tl (split row BAR))"
  by (simp add: table_data_def row_fields_def py_slice_2_m1 py_slice_1_m1
      inner_segments_strip [OF not_isspace_BAR])

theorem C4_witness:
  "table_data (py ''h'' @ [NEWLINE] @ py ''s'' @ [NEWLINE] @ py ''r1'' @ [NEWLINE] @ py ''t'')
     = [py ''r1'']
   \<and> row_fields (py '' |a| b|c | '') = [py ''a'', py '' b'', py ''c '']"
proof -
  have a: "split (strip (py ''h'' @ [NEWLINE] @ py ''s'' @ [NEWLINE] @ py ''r1'' @ [NEWLINE] @ py ''t'')) NEWLINE
        = [py ''h'', py ''s'', py ''r1'', py ''t'']"
    by (simp add: strip_def isspace_def py_def NEWLINE_def)
  have b: "split (py '' |a| b|c | '') BAR = [py '' '', py ''a'', py '' b'', py ''c '', py '' '']"
    by (simp add: py_def BAR_def)
  note th = C4_line_selection_and_row_splitting
      [of "py ''h'' @ [NEWLINE] @ py ''s'' @ [NEWLINE] @ py ''r1'' @ [NEWLINE] @ py ''t''"
          "py '' |a| b|c | ''"]
  have "table_data (py ''h'' @ [NEWLINE] @ py ''s'' @ [NEWLINE] @ py ''r1'' @ [NEWLINE] @ py ''t'')
     = [py ''r1'']"
    using th [THEN conjunct1] unfolding a by simp
  moreover have "row_fields (py '' |a| b|c | '') = [py ''a'', py '' b'', py ''c '']"
    using th [THEN conjunct2, THEN conjunct2, THEN conjunct2] unfolding b by simp
  ultimately show ?thesis by simp
qed

section \<open>C3: the coercion of the Price and Time cells\<close>

lemma re_sub_runs_filter: "re_sub_runs cls s = filter (\<lambda>c. \<not> cls c) s"
proof (induction cls s rule: re_sub_runs.induct)
  case (1 cls)
  show ?case by simp
next
  case (2 cls c cs)
  have "filter (\<lambda>c. \<not> cls c) (dropWhile cls cs) = filter (\<lambda>c. \<not> cls c) cs"
    by (induction cs) auto
  with 2 show ?case by simp
qed

lemma number_of_as_float: "number_of (as_float c) = number_of c"
  by (cases c) auto

lemma number_of_to_numeric:
  "map number_of (to_numeric col) = map (number_of \<circ> to_numeric_cell) col"
  by (simp add: to_numeric_def Let_def number_of_as_float comp_def)

lemmas coercion_eval =
  py_def floatify_def isdecimal_def DOT_def Nd_ranges_def isdigit_ascii_def digits_value_def



section \<open>C6: empty source or destination\<close>

text \<open>
  C6: when the source or the destination is the empty string, a press of the button
  makes no call to the text-generation service, and the page shows the validation
  error and nothing else.
\<close>

theorem C6_empty_input:
  "source = [] \<or> destination = [] \<Longrightarrow>
   calls (on_click os repr_float travel_chain source destination) = []
   \<and> page (on_click os repr_float travel_chain source destination) = [validation_error]"
  by (auto simp: on_click_def)

theorem C6_witness:
  "([] = ([]::pystr) \<or> py ''Pune'' = [])
   \<and> calls (on_click Posix (\<lambda>r. []) (\<lambda>s d. Returns (StrResponse [])) [] (py ''Pune'')) = []
   \<and> page (on_click Posix (\<lambda>r. []) (\<lambda>s d. Returns (StrResponse [])) [] (py ''Pune''))
       = [validation_error]"
  using C6_empty_input [of "[]" "py ''Pune''" Posix "\<lambda>r. []" "\<lambda>s d. Returns (StrResponse [])"]
  by simp

section \<open>C7: the Composer's boundary\<close>

text \<open>
  C7: when the generation call raises an exception, \<open>get_travel_recommendations\<close>
  returns the string \<open>An error occurred: \<close> followed by the cause; when the call
  returns a string, it returns that string. In both cases one call has been made.
\<close>

theorem C7_composer:
  "(travel_chain source destination = Raises cause \<longrightarrow>
      get_travel_recommendations travel_chain source destination made
        = (py ''An error occurred: '' @ cause, made @ [(source, destination)]))
   \<and> (travel_chain source destination = Returns (StrResponse reply) \<longrightarrow>
      get_travel_recommendations travel_chain source destination made
        = (reply, made @ [(source, destination)]))"
  by (simp add: get_travel_recommendations_def)

theorem C7_witness:
  "get_travel_recommendations (\<lambda>s d. Raises (py ''quota'')) (py ''Mumbai'') (py ''Pune'') []
     = (py ''An error occurred: '' @ py ''quota'', [(py ''Mumbai'', py ''Pune'')])
   \<and> get_travel_recommendations (\<lambda>s d. Returns (StrResponse (py ''| a |''))) (py ''Mumbai'')
        (py ''Pune'') []
     = (py ''| a |'', [(py ''Mumbai'', py ''Pune'')])"
  using C7_composer [of "\<lambda>s d. Raises (py ''quota'')" "py ''Mumbai''" "py ''Pune''" "py ''quota''" "[]"]
    C7_composer [of "\<lambda>s d. Returns (StrResponse (py ''| a |''))" "py ''Mumbai''" "py ''Pune''" _ "[]"
      "py ''| a |''"]
  by simp

section \<open>The frame that the Tabulator builds\<close>

lemmas names_eval =
  column_names_def TRAVEL_TYPE_def PRICE_def TIME_def DESCRIPTION_def COMFORT_def DIRECTNESS_def py_def

lemma index_of_names:
  "index_of column_names TRAVEL_TYPE = Some 0"
  "index_of column_names PRICE = Some 1"
  "index_of column_names TIME = Some 2"
  by (simp_all add: names_eval)

lemma DataFrame_columns: "DataFrame rows cols = Inr df \<Longrightarrow> columns df = cols"
  by (auto simp: DataFrame_def Let_def split: if_splits)

lemma coerce_column_columns: "coerce_column df name = Inr df' \<Longrightarrow> columns df' = columns df"
  by (auto simp: coerce_column_def get_column_def set_column_def split: option.splits sum.splits)

lemma tabulate_columns: "tabulate raw = Inr df \<Longrightarrow> columns df = column_names"
  by (auto simp: tabulate_def split: sum.splits dest!: DataFrame_columns coerce_column_columns)

lemma process_data_Inr:
  assumes "tabulate raw = Inr df"
  shows "process_data os repr_float raw =
    [StPlotlyChart (fig_price (map (\<lambda>r. r ! 0) (data df)) (map (\<lambda>r. r ! 1) (data df))),
     StPlotlyChart (fig_time (map (\<lambda>r. r ! 0) (data df)) (map (\<lambda>r. r ! 2) (data df))),
     download_button (to_csv os repr_float df)]"
  using assms tabulate_columns [OF assms]
  by (simp add: process_data_def get_column_def index_of_names)

lemma process_data_Inl: "tabulate raw = Inl e \<Longrightarrow> process_data os repr_float raw = [processing_error e]"
  by (simp add: process_data_def)

lemma header_row:
  "csv_row (linesep os) column_names
     = py ''Travel Type,Price (Estimated),Time (Estimated),Description,Comfort Level,Directness'' @ linesep os"
  by (cases os) (simp_all add: csv_row_def csv_field_def needs_quotes_def COMMA_def QUOTE_def names_eval)

lemma table_data_short: "length (split (strip raw) NEWLINE) < 3 \<Longrightarrow> table_data raw = []"
  by (simp add: table_data_def py_slice_2_m1)

lemma coerce_column_empty:
  "index_of cols name \<noteq> None \<Longrightarrow>
   coerce_column \<lparr>columns = cols, data = []\<rparr> name = Inr \<lparr>columns = cols, data = []\<rparr>"
  by (auto simp: coerce_column_def get_column_def set_column_def to_numeric_def str_replace_def)

lemma tabulate_no_rows:
  "table_data raw = [] \<Longrightarrow> tabulate raw = Inr \<lparr>columns = column_names, data = []\<rparr>"
  by (simp add: tabulate_def rows_of_def DataFrame_def coerce_column_empty index_of_names)

lemma width_uniform:
  "\<forall>r\<in>set rows. length r = n \<Longrightarrow> foldr max (map length rows) 0 = (if rows = [] then 0 else n)"
  by (induction rows) (auto simp: max_def)

lemma DataFrame_uniform:
  assumes "rows \<noteq> []" "\<forall>r\<in>set rows. length r = length cols"
  shows "DataFrame rows cols = Inr \<lparr>columns = cols, data = map (map Str) rows\<rparr>"
proof -
  have w: "foldr max (map length rows) 0 = length cols"
    using assms width_uniform [of rows "length cols"] by simp
  have "map (\<lambda>r. map Str r @ replicate (length cols - length r) Missing) rows = map (map Str) rows"
    using assms(2) by simp
  then show ?thesis
    using assms(1) by (simp add: DataFrame_def w)
qed

lemma coerce_column_Some:
  "index_of (columns df) name = Some i \<Longrightarrow>
   coerce_column df name = Inr \<lparr>columns = columns df,
     data = map2 (\<lambda>r v. r[i := v]) (data df) (to_numeric (str_replace (map (\<lambda>r. r ! i) (data df))))\<rparr>"
  by (simp add: coerce_column_def get_column_def set_column_def)

lemma length_to_numeric: "length (to_numeric col) = length col"
  by (simp add: to_numeric_def Let_def)

lemma length_str_replace: "length (str_replace col) = length col"
  by (simp add: str_replace_def)

lemma six_cells:
  assumes "length r = 6"
  shows "(map Str r)[1 := p, 2 := t] = [Str (r ! 0), p, t, Str (r ! 3), Str (r ! 4), Str (r ! 5)]"
proof -
  from assms obtain a b c d e f where "r = [a, b, c, d, e, f]"
    by (auto simp: length_Suc_conv eval_nat_numeral)
  then show ?thesis by simp
qed

lemma tabulate_uniform:
  assumes "rows_of (table_data raw) = rows" "rows \<noteq> []" "\<forall>r\<in>set rows. length r = 6"
  shows "tabulate raw = Inr \<lparr>columns = column_names,
     data = map (\<lambda>(r, p, t). [Str (r ! 0), p, t, Str (r ! 3), Str (r ! 4), Str (r ! 5)])
              (zip rows (zip (to_numeric (str_replace (map (\<lambda>r. Str (r ! 1)) rows)))
                             (to_numeric (str_replace (map (\<lambda>r. Str (r ! 2)) rows)))))\<rparr>"
proof -
  define pc where "pc = to_numeric (str_replace (map (\<lambda>r. Str (r ! 1)) rows))"
  define tc where "tc = to_numeric (str_replace (map (\<lambda>r. Str (r ! 2)) rows))"
  define d1 where "d1 = map2 (\<lambda>r v. r[1 := v]) (map (map Str) rows) pc"
  have lpc: "length pc = length rows" and ltc: "length tc = length rows"
    by (simp_all add: pc_def tc_def length_to_numeric length_str_replace)
  have len: "length column_names = 6" by (simp add: column_names_def)
  have df: "DataFrame rows column_names = Inr \<lparr>columns = column_names, data = map (map Str) rows\<rparr>"
    using assms(2,3) by (simp add: DataFrame_uniform len)
  have c1: "map ((\<lambda>r. r ! Suc 0) \<circ> map Str) rows = map (\<lambda>r. Str (r ! Suc 0)) rows"
    using assms(3) by simp
  have s1: "coerce_column \<lparr>columns = column_names, data = map (map Str) rows\<rparr> PRICE
      = Inr \<lparr>columns = column_names, data = d1\<rparr>"
    by (simp add: coerce_column_Some index_of_names c1 d1_def pc_def)
  have c2: "map (\<lambda>r. r ! 2) d1 = map (\<lambda>r. Str (r ! 2)) rows"
    using assms(3) lpc by (auto simp: d1_def list_eq_iff_nth_eq)
  have s2: "coerce_column \<lparr>columns = column_names, data = d1\<rparr> TIME
      = Inr \<lparr>columns = column_names, data = map2 (\<lambda>r v. r[2 := v]) d1 tc\<rparr>"
    by (simp add: coerce_column_Some index_of_names c2 tc_def)
  have fin: "map2 (\<lambda>r v. r[2 := v]) d1 tc
      = map (\<lambda>(r, p, t). [Str (r ! 0), p, t, Str (r ! 3), Str (r ! 4), Str (r ! 5)]) (zip rows (zip pc tc))"
  proof (rule nth_equalityI)
    show "length (map2 (\<lambda>r v. r[2 := v]) d1 tc)
        = length (map (\<lambda>(r, p, t). [Str (r ! 0), p, t, Str (r ! 3), Str (r ! 4), Str (r ! 5)])
            (zip rows (zip pc tc)))"
      by (simp add: d1_def lpc ltc)
  next
    fix i
    assume "i < length (map2 (\<lambda>r v. r[2 := v]) d1 tc)"
    then have i: "i < length rows" by (simp add: d1_def lpc ltc)
    then have "length (rows ! i) = 6" using assms(3) by simp
    from six_cells [OF this, of "pc ! i" "tc ! i"]
    show "map2 (\<lambda>r v. r[2 := v]) d1 tc ! i
        = map (\<lambda>(r, p, t). [Str (r ! 0), p, t, Str (r ! 3), Str (r ! 4), Str (r ! 5)])
            (zip rows (zip pc tc)) ! i"
      using i lpc ltc by (simp add: d1_def)
  qed
  show ?thesis
    unfolding tabulate_def assms(1) df
    by (simp add: s1 s2 fin) (simp add: pc_def tc_def)
qed

section \<open>C2: a response of fewer than three lines\<close>

text \<open>
  C2, as the claim states it, fails: a response of one line is no tabulation failure.
  The slice of line 69 is empty, \<open>pd.DataFrame([], columns=...)\<close> is an empty frame, and
  nothing in the \<open>try\<close> block raises: the page shows two charts without bars and a
  download button for a CSV that is its header row, and no error message.
\<close>

theorem C2_short_response_counterexample:
  "length (split (strip (py ''No table'')) NEWLINE) < 3
   \<and> process_data Posix (\<lambda>r. []) (py ''No table'') =
     [StPlotlyChart (fig_price [] []), StPlotlyChart (fig_time [] []),
      download_button (py ''Travel Type,Price (Estimated),Time (Estimated),Description,Comfort Level,Directness''
         @ [10])]
   \<and> (\<forall>e. processing_error e \<notin> set (process_data Posix (\<lambda>r. []) (py ''No table'')))"
proof -
  have l: "length (split (strip (py ''No table'')) NEWLINE) < 3"
    by (simp add: strip_def isspace_def py_def NEWLINE_def)
  then have "tabulate (py ''No table'') = Inr \<lparr>columns = column_names, data = []\<rparr>"
    by (simp add: table_data_short tabulate_no_rows)
  then have p: "process_data Posix (\<lambda>r. []) (py ''No table'') =
     [StPlotlyChart (fig_price [] []), StPlotlyChart (fig_time [] []),
      download_button (py ''Travel Type,Price (Estimated),Time (Estimated),Description,Comfort Level,Directness''
         @ [10])]"
    using header_row [of Posix] by (simp add: process_data_Inr to_csv_def)
  have "\<forall>e. processing_error e \<notin> set (process_data Posix (\<lambda>r. []) (py ''No table''))"
    unfolding p by (simp add: processing_error_def download_button_def)
  with l p show ?thesis by blast
qed

text \<open>
  C2, amended: for every raw response whose stripped form has fewer than three lines
  the Tabulator neither faults nor takes the failure path. It builds the empty table
  with the six named columns; the page shows the price chart and the time chart, both
  without categories, and the download button for a CSV that consists of the header
  row; no error message is shown.
\<close>

theorem C2_short_response:
  "length (split (strip raw) NEWLINE) < 3 \<Longrightarrow>
   tabulate raw = Inr \<lparr>columns = column_names, data = []\<rparr>
   \<and> process_data os repr_float raw =
     [StPlotlyChart (fig_price [] []), StPlotlyChart (fig_time [] []),
      download_button (py ''Travel Type,Price (Estimated),Time (Estimated),Description,Comfort Level,Directness''
         @ linesep os)]"
proof -
  assume "length (split (strip raw) NEWLINE) < 3"
  then have t: "tabulate raw = Inr \<lparr>columns = column_names, data = []\<rparr>"
    by (simp add: table_data_short tabulate_no_rows)
  then show ?thesis
    by (simp add: process_data_Inr to_csv_def header_row)
qed

theorem C2_witness:
  "length (split (strip (py ''Sorry.'' @ [NEWLINE] @ py ''Try again.'')) NEWLINE) < 3
   \<and> tabulate (py ''Sorry.'' @ [NEWLINE] @ py ''Try again.'')
       = Inr \<lparr>columns = column_names, data = []\<rparr>
   \<and> process_data Windows (\<lambda>r. []) (py ''Sorry.'' @ [NEWLINE] @ py ''Try again.'') =
     [StPlotlyChart (fig_price [] []), StPlotlyChart (fig_time [] []),
      download_button (py ''Travel Type,Price (Estimated),Time (Estimated),Description,Comfort Level,Directness''
         @ [13, 10])]"
proof -
  have l: "length (split (strip (py ''Sorry.'' @ [NEWLINE] @ py ''Try again.'')) NEWLINE) < 3"
    by (simp add: strip_def isspace_def py_def NEWLINE_def)
  from C2_short_response [OF l, of Windows "\<lambda>r. []"] l show ?thesis by simp
qed

section \<open>C5: the header row of the CSV\<close>

text \<open>
  C5: whenever the tabulation succeeds, the text handed to the download button is the
  CSV of the frame, and it begins with the header row
  \<open>Travel Type,Price (Estimated),Time (Estimated),Description,Comfort Level,Directness\<close>
  followed by the line terminator.
\<close>

theorem C5_csv_header:
  "tabulate raw = Inr df \<Longrightarrow>
   prefix (py ''Travel Type,Price (Estimated),Time (Estimated),Description,Comfort Level,Directness''
             @ linesep os)
          (to_csv os repr_float df)
   \<and> last (process_data os repr_float raw) = download_button (to_csv os repr_float df)"
proof -
  assume t: "tabulate raw = Inr df"
  then have "columns df = column_names" by (rule tabulate_columns)
  then have "prefix (py ''Travel Type,Price (Estimated),Time (Estimated),Description,Comfort Level,Directness''
             @ linesep os) (to_csv os repr_float df)"
    by (simp add: to_csv_def header_row)
  with t show ?thesis by (simp add: process_data_Inr)
qed

section \<open>Tables and their rows\<close>

lemma split_append_sep: "sep \<notin> set a \<Longrightarrow> split (a @ sep # b) sep = a # split b sep"
  by (induction a) (auto split: list.splits)

lemma split_no_sep: "sep \<notin> set s \<Longrightarrow> split s sep = [s]"
  by (induction s) (auto split: list.splits)

lemma split_join_post:
  "cells \<noteq> [] \<Longrightarrow> \<forall>c\<in>set cells. sep \<notin> set c \<Longrightarrow> sep \<notin> set post \<Longrightarrow>
   split (join [sep] cells @ sep # post) sep = cells @ [post]"
proof (induction "[sep]" cells rule: join.induct)
  case 1
  then show ?case by simp
next
  case (2 x)
  then show ?case by (simp add: split_append_sep split_no_sep)
next
  case (3 x y ys)
  then show ?case by (simp add: split_append_sep)
qed

lemma split_join:
  "xs \<noteq> [] \<Longrightarrow> \<forall>c\<in>set xs. sep \<notin> set c \<Longrightarrow> split (join [sep] xs) sep = xs"
proof (induction "[sep]" xs rule: join.induct)
  case 1
  then show ?case by simp
next
  case (2 x)
  then show ?case by (simp add: split_no_sep)
next
  case (3 x y ys)
  then show ?case by (simp add: split_append_sep)
qed

lemma join_snoc: "xs \<noteq> [] \<Longrightarrow> join sep (xs @ [y]) = join sep xs @ sep @ y"
  by (induction sep xs rule: join.induct) auto

lemma set_join: "set (join sep xs) \<subseteq> set sep \<union> \<Union> (set ` set xs)"
  by (induction sep xs rule: join.induct) auto

lemma row_fields_eq: "row_fields row = butlast (tl (split row BAR))"
  by (simp add: row_fields_def py_slice_1_m1 inner_segments_strip [OF not_isspace_BAR])

lemma row_fields_markdown:
  assumes "BAR \<notin> set pre" "BAR \<notin> set post" "cells \<noteq> []" "\<forall>c\<in>set cells. BAR \<notin> set c"
  shows "row_fields (pre @ markdown_row cells @ post) = cells"
proof -
  have "split (pre @ markdown_row cells @ post) BAR = pre # cells @ [post]"
    using assms by (simp add: markdown_row_def split_append_sep split_join_post)
  then show ?thesis by (simp add: row_fields_eq)
qed

lemma six_columnsD:
  "six_columns cells \<Longrightarrow> length cells = 6 \<and> cells \<noteq> [] \<and> (\<forall>c\<in>set cells. BAR \<notin> set c \<and> NEWLINE \<notin> set c)"
  by (auto simp: six_columns_def list_all_iff)

lemma rows_of_markdown:
  "\<forall>cells\<in>set cellss. six_columns cells \<Longrightarrow> rows_of (map markdown_row cellss) = cellss"
proof -
  assume a: "\<forall>cells\<in>set cellss. six_columns cells"
  have "row_fields (markdown_row cells) = cells" if "cells \<in> set cellss" for cells
    using row_fields_markdown [of "[]" "[]" cells] six_columnsD [of cells] a that by simp
  then show ?thesis by (simp add: rows_of_def map_idI)
qed

lemma newline_markdown_row:
  "six_columns cells \<Longrightarrow> NEWLINE \<notin> set (markdown_row cells)"
  using set_join [of "[BAR]" cells]
  by (auto simp: markdown_row_def BAR_def NEWLINE_def dest!: six_columnsD)

lemma table_lines:
  assumes "NEWLINE \<notin> set header" "NEWLINE \<notin> set separator" "\<forall>cells\<in>set cellss. six_columns cells"
  shows "split (markdown_table header separator cellss) NEWLINE
         = header # separator # map markdown_row cellss"
  unfolding markdown_table_def
  using assms by (intro split_join) (auto simp: newline_markdown_row)

lemma table_lines_trailer:
  assumes "NEWLINE \<notin> set header" "NEWLINE \<notin> set separator" "\<forall>cells\<in>set cellss. six_columns cells"
    "NEWLINE \<notin> set trailer"
  shows "split (markdown_table header separator cellss @ [NEWLINE] @ trailer) NEWLINE
         = header # separator # map markdown_row cellss @ [trailer]"
proof -
  have "markdown_table header separator cellss @ [NEWLINE] @ trailer
        = join [NEWLINE] ((header # separator # map markdown_row cellss) @ [trailer])"
    unfolding markdown_table_def by (subst join_snoc) simp_all
  moreover have "split (join [NEWLINE] ((header # separator # map markdown_row cellss) @ [trailer])) NEWLINE
        = (header # separator # map markdown_row cellss) @ [trailer]"
    using assms by (intro split_join) (auto simp: newline_markdown_row)
  ultimately show ?thesis by simp
qed

lemma tabulate_rows:
  assumes "table_data raw = map markdown_row cellss" "cellss \<noteq> []"
    "\<forall>cells\<in>set cellss. six_columns cells"
  shows "tabulate raw = Inr \<lparr>columns = column_names,
     data = map (\<lambda>(r, p, t). [Str (r ! 0), p, t, Str (r ! 3), Str (r ! 4), Str (r ! 5)])
              (zip cellss (zip (to_numeric (str_replace (map (\<lambda>r. Str (r ! 1)) cellss)))
                               (to_numeric (str_replace (map (\<lambda>r. Str (r ! 2)) cellss)))))\<rparr>"
proof -
  have a: "rows_of (table_data raw) = cellss"
    using assms(1,3) by (simp add: rows_of_markdown)
  have b: "\<forall>r\<in>set cellss. length r = 6"
    using assms(3) by (auto dest: six_columnsD)
  show ?thesis
    by (rule tabulate_uniform [OF a assms(2) b])
qed

lemma number_of_coerced:
  "i < length rows \<Longrightarrow>
   number_of (to_numeric (str_replace (map (\<lambda>r. Str (r ! k)) rows)) ! i)
     = number_of (coerce_cell (rows ! i ! k))"
proof -
  assume i: "i < length rows"
  have "map number_of (to_numeric (str_replace (map Str (map (\<lambda>r. r ! k) rows))))
        = map (number_of \<circ> coerce_cell) (map (\<lambda>r. r ! k) rows)"
    by (simp add: number_of_to_numeric str_replace_def coerce_cell_def comp_def)
  then have "map number_of (to_numeric (str_replace (map (\<lambda>r. Str (r ! k)) rows))) ! i
        = map (number_of \<circ> coerce_cell) (map (\<lambda>r. r ! k) rows) ! i"
    by (simp add: comp_def)
  then show ?thesis
    using i by (simp add: length_to_numeric length_str_replace)
qed

lemma records_of_rows:
  assumes "table_data raw = map markdown_row cellss" "cellss \<noteq> []"
    "\<forall>cells\<in>set cellss. six_columns cells"
  shows "\<exists>df. tabulate raw = Inr df \<and> columns df = column_names
    \<and> length (data df) = length cellss
    \<and> map (\<lambda>r. r ! 0) (data df) = map (\<lambda>cells. Str (cells ! 0)) cellss
    \<and> (\<forall>i<length cellss.
          data df ! i = [Str (cellss ! i ! 0), data df ! i ! 1, data df ! i ! 2,
                         Str (cellss ! i ! 3), Str (cellss ! i ! 4), Str (cellss ! i ! 5)]
        \<and> number_of (data df ! i ! 1) = number_of (coerce_cell (cellss ! i ! 1))
        \<and> number_of (data df ! i ! 2) = number_of (coerce_cell (cellss ! i ! 2)))"
proof -
  define pc where "pc = to_numeric (str_replace (map (\<lambda>r. Str (r ! 1)) cellss))"
  define tc where "tc = to_numeric (str_replace (map (\<lambda>r. Str (r ! 2)) cellss))"
  define df where "df = \<lparr>columns = column_names,
     data = map (\<lambda>(r, p, t). [Str (r ! 0), p, t, Str (r ! 3), Str (r ! 4), Str (r ! 5)])
              (zip cellss (zip pc tc))\<rparr>"
  have l: "length pc = length cellss" "length tc = length cellss"
    by (simp_all add: pc_def tc_def length_to_numeric length_str_replace)
  have t: "tabulate raw = Inr df"
    unfolding df_def pc_def tc_def using assms by (rule tabulate_rows)
  have n: "data df ! i = [Str (cellss ! i ! 0), pc ! i, tc ! i,
                         Str (cellss ! i ! 3), Str (cellss ! i ! 4), Str (cellss ! i ! 5)]"
    if "i < length cellss" for i
    using that l by (simp add: df_def)
  have "number_of (pc ! i) = number_of (coerce_cell (cellss ! i ! 1))"
    and "number_of (tc ! i) = number_of (coerce_cell (cellss ! i ! 2))"
    if "i < length cellss" for i
    using that by (simp_all add: pc_def tc_def number_of_coerced)
  with n have "\<forall>i<length cellss.
          data df ! i = [Str (cellss ! i ! 0), data df ! i ! 1, data df ! i ! 2,
                         Str (cellss ! i ! 3), Str (cellss ! i ! 4), Str (cellss ! i ! 5)]
        \<and> number_of (data df ! i ! 1) = number_of (coerce_cell (cellss ! i ! 1))
        \<and> number_of (data df ! i ! 2) = number_of (coerce_cell (cellss ! i ! 2))"
    by simp
  moreover have "columns df = column_names" "length (data df) = length cellss"
    using l by (simp_all add: df_def)
  moreover have "map (\<lambda>r. r ! 0) (data df) = map (\<lambda>cells. Str (cells ! 0)) cellss"
    using l n by (intro nth_equalityI) (simp_all add: df_def)
  ultimately show ?thesis using t by blast
qed

section \<open>C1: five records from a well-formed table\<close>

text \<open>
  C1, amended: for every raw response whose stripped form is a header line, a separator
  line, exactly 5 data rows of 6 bar-delimited columns each, and one further final
  line, the Tabulator produces exactly 5 records with the 6 named fields, in the order
  of the input rows: the four text fields are the cells as written, and the two
  numeric fields hold the numbers that the coercion reads from the Price and the Time
  cell.
\<close>

theorem C1_five_records:
  assumes "strip raw = markdown_table header separator cellss @ [NEWLINE] @ trailer"
    "NEWLINE \<notin> set header" "NEWLINE \<notin> set separator" "NEWLINE \<notin> set trailer"
    "length cellss = 5" "\<forall>cells\<in>set cellss. six_columns cells"
  shows "\<exists>df. tabulate raw = Inr df \<and> columns df = column_names
    \<and> length (data df) = 5
    \<and> map (\<lambda>r. r ! 0) (data df) = map (\<lambda>cells. Str (cells ! 0)) cellss
    \<and> (\<forall>i<5.
          data df ! i = [Str (cellss ! i ! 0), data df ! i ! 1, data df ! i ! 2,
                         Str (cellss ! i ! 3), Str (cellss ! i ! 4), Str (cellss ! i ! 5)]
        \<and> number_of (data df ! i ! 1) = number_of (coerce_cell (cellss ! i ! 1))
        \<and> number_of (data df ! i ! 2) = number_of (coerce_cell (cellss ! i ! 2)))"
proof -
  have "split (strip raw) NEWLINE = header # separator # map markdown_row cellss @ [trailer]"
    unfolding assms(1) using assms(2,3,6,4) by (rule table_lines_trailer)
  then have "table_data raw = map markdown_row cellss"
    by (simp add: table_data_def py_slice_2_m1)
  moreover have "cellss \<noteq> []" using assms(5) by auto
  ultimately show ?thesis
    using records_of_rows [of raw cellss] assms(5,6) by simp
qed

section \<open>The example response\<close>

lemma strip_trailing:
  assumes "s \<noteq> []" "\<not> isspace (hd s)" "\<not> isspace (last s)" "\<forall>c\<in>set w. isspace c"
  shows "strip (s @ w) = s"
proof -
  have a: "dropWhile isspace (s @ w) = s @ w"
    using assms(1,2) by (cases s) auto
  have b: "dropWhile isspace (rev w @ rev s) = dropWhile isspace (rev s)"
    using assms(4) by (simp add: dropWhile_append)
  have c: "dropWhile isspace (rev s) = rev s"
    using assms(1,3) by (cases "rev s") (auto simp: last_rev [symmetric] simp del: last_rev)
  show ?thesis by (simp add: strip_def a b c)
qed

lemmas example_eval =
  example_table_def markdown_table_def example_header_def example_separator_def
  example_trailer_def py_def

lemma example_six_columns: "\<forall>cells\<in>set example_cells. six_columns cells"
  by (simp add: example_cells_def six_columns_def py_def BAR_def NEWLINE_def)

lemma example_no_newline:
  "NEWLINE \<notin> set example_header" "NEWLINE \<notin> set example_separator" "NEWLINE \<notin> set example_trailer"
  by (simp_all add: example_eval NEWLINE_def)

lemma example_strip_trailer:
  "strip (example_table @ [NEWLINE] @ example_trailer @ [NEWLINE])
     = example_table @ [NEWLINE] @ example_trailer"
  using strip_trailing [of "example_table @ [NEWLINE] @ example_trailer" "[NEWLINE]"]
  by (simp add: example_eval isspace_def NEWLINE_def)

lemma example_strip_table: "strip (example_table @ [NEWLINE]) = example_table"
proof -
  have "last example_table = BAR"
    by (simp add: example_eval example_cells_def markdown_row_def)
  moreover have "hd example_table = BAR" "example_table \<noteq> []"
    by (simp_all add: example_eval BAR_def)
  ultimately show ?thesis
    using strip_trailing [of example_table "[NEWLINE]"]
    by (simp add: isspace_def NEWLINE_def BAR_def)
qed

text \<open>
  C1, as the claim states it, fails: when the response is the table and nothing else
  (here with the newline that ends its last row), the final line that line 69
  discards is the fifth data row. The example table has five rows of six columns; the
  Tabulator produces four records, and the row of Ola/Uber is lost.
\<close>

theorem C1_table_alone_counterexample:
  "length example_cells = 5
   \<and> list_all six_columns example_cells
   \<and> (\<exists>df. tabulate (example_table @ [NEWLINE]) = Inr df
         \<and> length (data df) = 4
         \<and> map (\<lambda>r. r ! 0) (data df)
             = [Str (py '' Cab/Taxi ''), Str (py '' Train ''), Str (py '' Bus ''), Str (py '' Flight '')])"
proof -
  have "split example_table NEWLINE
        = example_header # example_separator # map markdown_row example_cells"
    unfolding example_table_def
    using example_no_newline(1,2) example_six_columns by (rule table_lines)
  then have "split (strip (example_table @ [NEWLINE])) NEWLINE
        = example_header # example_separator # map markdown_row example_cells"
    by (simp only: example_strip_table)
  then have "table_data (example_table @ [NEWLINE]) = butlast (map markdown_row example_cells)"
    by (simp add: table_data_def py_slice_2_m1)
  then have td: "table_data (example_table @ [NEWLINE]) = map markdown_row (butlast example_cells)"
    by (simp add: map_butlast)
  have six: "\<forall>cells\<in>set (butlast example_cells). six_columns cells"
    using example_six_columns by (auto dest: in_set_butlastD)
  have ne: "butlast example_cells \<noteq> []"
    by (simp add: example_cells_def)
  from records_of_rows [OF td ne six]
  obtain df where df: "tabulate (example_table @ [NEWLINE]) = Inr df"
    "length (data df) = length (butlast example_cells)"
    "map (\<lambda>r. r ! 0) (data df) = map (\<lambda>cells. Str (cells ! 0)) (butlast example_cells)"
    by blast
  have "length (butlast example_cells) = 4"
    by (simp add: example_cells_def)
  moreover have "map (\<lambda>cells. Str (cells ! 0)) (butlast example_cells)
      = [Str (py '' Cab/Taxi ''), Str (py '' Train ''), Str (py '' Bus ''), Str (py '' Flight '')]"
    by (simp add: example_cells_def)
  moreover have "length example_cells = 5"
    by (simp add: example_cells_def)
  moreover have "list_all six_columns example_cells"
    using example_six_columns by (simp add: list_all_iff)
  ultimately show ?thesis
    using df by auto
qed

text \<open>The amended C1 on the example table followed by a line of prose.\<close>

theorem C1_witness:
  "strip (example_table @ [NEWLINE] @ example_trailer @ [NEWLINE])
     = markdown_table example_header example_separator example_cells @ [NEWLINE] @ example_trailer
   \<and> length example_cells = 5
   \<and> (\<exists>df. tabulate (example_table @ [NEWLINE] @ example_trailer @ [NEWLINE]) = Inr df
         \<and> columns df = column_names
         \<and> length (data df) = 5
         \<and> map (\<lambda>r. r ! 0) (data df)
             = [Str (py '' Cab/Taxi ''), Str (py '' Train ''), Str (py '' Bus ''), Str (py '' Flight ''),
                Str (py '' Ola/Uber '')])"
proof -
  have s: "strip (example_table @ [NEWLINE] @ example_trailer @ [NEWLINE])
     = markdown_table example_header example_separator example_cells @ [NEWLINE] @ example_trailer"
    using example_strip_trailer by (simp add: example_table_def)
  have l: "length example_cells = 5"
    by (simp add: example_cells_def)
  have m: "map (\<lambda>cells. Str (cells ! 0)) example_cells
      = [Str (py '' Cab/Taxi ''), Str (py '' Train ''), Str (py '' Bus ''), Str (py '' Flight ''),
         Str (py '' Ola/Uber '')]"
    by (simp add: example_cells_def)
  from C1_five_records [OF s example_no_newline l example_six_columns]
  show ?thesis using s l m by auto
qed

text \<open>C5 on the same response: the frame of five records, and its CSV on a POSIX system.\<close>

theorem C5_witness:
  "tabulate (example_table @ [NEWLINE] @ example_trailer @ [NEWLINE])
     = Inr \<lparr>columns = column_names,
            data = map (\<lambda>(r, p, t). [Str (r ! 0), p, t, Str (r ! 3), Str (r ! 4), Str (r ! 5)])
              (zip example_cells
                (zip [FloatVal 1200, FloatVal 300, FloatVal 250, Missing, FloatVal 1500]
                     [FloatVal (5 / 2), FloatVal 3, FloatVal 4, Missing, FloatVal (5 / 2)]))\<rparr>
   \<and> prefix (py ''Travel Type,Price (Estimated),Time (Estimated),Description,Comfort Level,Directness''
              @ [10])
        (to_csv Posix (\<lambda>r. [])
          \<lparr>columns = column_names,
            data = map (\<lambda>(r, p, t). [Str (r ! 0), p, t, Str (r ! 3), Str (r ! 4), Str (r ! 5)])
              (zip example_cells
                (zip [FloatVal 1200, FloatVal 300, FloatVal 250, Missing, FloatVal 1500]
                     [FloatVal (5 / 2), FloatVal 3, FloatVal 4, Missing, FloatVal (5 / 2)]))\<rparr>)"
proof -
  have "split (example_table @ [NEWLINE] @ example_trailer) NEWLINE
        = example_header # example_separator # map markdown_row example_cells @ [example_trailer]"
    unfolding example_table_def
    using example_no_newline(1,2) example_six_columns example_no_newline(3)
    by (rule table_lines_trailer)
  then have "split (strip (example_table @ [NEWLINE] @ example_trailer @ [NEWLINE])) NEWLINE
        = example_header # example_separator # map markdown_row example_cells @ [example_trailer]"
    by (simp only: example_strip_trailer)
  then have td: "table_data (example_table @ [NEWLINE] @ example_trailer @ [NEWLINE])
      = map markdown_row example_cells"
    by (simp add: table_data_def py_slice_2_m1)
  have ne: "example_cells \<noteq> []" by (simp add: example_cells_def)
  have pc: "to_numeric (str_replace (map (\<lambda>r. Str (r ! 1)) example_cells))
      = [FloatVal 1200, FloatVal 300, FloatVal 250, Missing, FloatVal 1500]"
    by (simp add: example_cells_def to_numeric_def str_replace_def re_sub_runs_filter
        non_numeric_def coercion_eval)
  have tc: "to_numeric (str_replace (map (\<lambda>r. Str (r ! 2)) example_cells))
      = [FloatVal (5 / 2), FloatVal 3, FloatVal 4, Missing, FloatVal (5 / 2)]"
    by (simp add: example_cells_def to_numeric_def str_replace_def re_sub_runs_filter
        non_numeric_def coercion_eval)
  have t: "tabulate (example_table @ [NEWLINE] @ example_trailer @ [NEWLINE])
     = Inr \<lparr>columns = column_names,
            data = map (\<lambda>(r, p, t). [Str (r ! 0), p, t, Str (r ! 3), Str (r ! 4), Str (r ! 5)])
              (zip example_cells
                (zip [FloatVal 1200, FloatVal 300, FloatVal 250, Missing, FloatVal 1500]
                     [FloatVal (5 / 2), FloatVal 3, FloatVal 4, Missing, FloatVal (5 / 2)]))\<rparr>"
    using tabulate_rows [OF td ne example_six_columns] unfolding pc tc .
  from C5_csv_header [OF t, of Posix "\<lambda>r. []"] t show ?thesis by simp
qed

section \<open>C10: the fields are not trimmed\<close>

lemma example_table_data:
  "table_data (example_table @ [NEWLINE] @ example_trailer @ [NEWLINE]) = map markdown_row example_cells"
proof -
  have "split (example_table @ [NEWLINE] @ example_trailer) NEWLINE
        = example_header # example_separator # map markdown_row example_cells @ [example_trailer]"
    unfolding example_table_def
    using example_no_newline(1,2) example_six_columns example_no_newline(3)
    by (rule table_lines_trailer)
  then have "split (strip (example_table @ [NEWLINE] @ example_trailer @ [NEWLINE])) NEWLINE
        = example_header # example_separator # map markdown_row example_cells @ [example_trailer]"
    by (simp only: example_strip_trailer)
  then show ?thesis
    by (simp add: table_data_def py_slice_2_m1)
qed

text \<open>
  C10: only the line is stripped, never a field. For a line that holds a markdown row
  (whatever stands before its first bar and after its last bar), the parsed fields are
  the cells exactly as written between the bars, with their leading and trailing
  blanks. In the frame built from rows of six columns, the Travel Type, Description,
  Comfort Level and Directness cells are those strings unchanged, and the categories
  of both charts and the Travel Type cells of the CSV are the untrimmed strings.
\<close>

theorem C10_fields_not_trimmed:
  "(BAR \<notin> set pre \<and> BAR \<notin> set post \<and> cells \<noteq> [] \<and> (\<forall>c\<in>set cells. BAR \<notin> set c)
      \<longrightarrow> row_fields (pre @ markdown_row cells @ post) = cells)
   \<and> (table_data raw = map markdown_row cellss \<and> cellss \<noteq> []
        \<and> (\<forall>cells\<in>set cellss. six_columns cells)
      \<longrightarrow> (\<exists>df. tabulate raw = Inr df
            \<and> map (\<lambda>r. r ! 0) (data df) = map (\<lambda>cells. Str (cells ! 0)) cellss
            \<and> (\<forall>i<length cellss. data df ! i ! 3 = Str (cellss ! i ! 3)
                  \<and> data df ! i ! 4 = Str (cellss ! i ! 4)
                  \<and> data df ! i ! 5 = Str (cellss ! i ! 5))
            \<and> (\<exists>ps ts. process_data os repr_float raw =
                 [StPlotlyChart (fig_price (map (\<lambda>cells. Str (cells ! 0)) cellss) ps),
                  StPlotlyChart (fig_time (map (\<lambda>cells. Str (cells ! 0)) cellss) ts),
                  download_button (to_csv os repr_float df)])))"
proof (intro conjI impI)
  assume "BAR \<notin> set pre \<and> BAR \<notin> set post \<and> cells \<noteq> [] \<and> (\<forall>c\<in>set cells. BAR \<notin> set c)"
  then show "row_fields (pre @ markdown_row cells @ post) = cells"
    by (simp add: row_fields_markdown)
next
  assume a: "table_data raw = map markdown_row cellss \<and> cellss \<noteq> []
        \<and> (\<forall>cells\<in>set cellss. six_columns cells)"
  then obtain df where df: "tabulate raw = Inr df"
    "map (\<lambda>r. r ! 0) (data df) = map (\<lambda>cells. Str (cells ! 0)) cellss"
    and n: "\<forall>i<length cellss.
          data df ! i = [Str (cellss ! i ! 0), data df ! i ! 1, data df ! i ! 2,
                         Str (cellss ! i ! 3), Str (cellss ! i ! 4), Str (cellss ! i ! 5)]"
    using records_of_rows [of raw cellss] by blast
  have "\<forall>i<length cellss. data df ! i ! 3 = Str (cellss ! i ! 3)
                  \<and> data df ! i ! 4 = Str (cellss ! i ! 4)
                  \<and> data df ! i ! 5 = Str (cellss ! i ! 5)"
  proof (intro allI impI)
    fix i assume "i < length cellss"
    with n have e: "data df ! i = [Str (cellss ! i ! 0), data df ! i ! 1, data df ! i ! 2,
                         Str (cellss ! i ! 3), Str (cellss ! i ! 4), Str (cellss ! i ! 5)]"
      by blast
    have "data df ! i ! 3 = [Str (cellss ! i ! 0), data df ! i ! 1, data df ! i ! 2,
                         Str (cellss ! i ! 3), Str (cellss ! i ! 4), Str (cellss ! i ! 5)] ! 3"
      "data df ! i ! 4 = [Str (cellss ! i ! 0), data df ! i ! 1, data df ! i ! 2,
                         Str (cellss ! i ! 3), Str (cellss ! i ! 4), Str (cellss ! i ! 5)] ! 4"
      "data df ! i ! 5 = [Str (cellss ! i ! 0), data df ! i ! 1, data df ! i ! 2,
                         Str (cellss ! i ! 3), Str (cellss ! i ! 4), Str (cellss ! i ! 5)] ! 5"
      using e by (rule arg_cong [where f = "\<lambda>xs. xs ! 3"], rule arg_cong [where f = "\<lambda>xs. xs ! 4"],
          rule arg_cong [where f = "\<lambda>xs. xs ! 5"])
    then show "data df ! i ! 3 = Str (cellss ! i ! 3)
                  \<and> data df ! i ! 4 = Str (cellss ! i ! 4)
                  \<and> data df ! i ! 5 = Str (cellss ! i ! 5)"
      by (simp add: eval_nat_numeral)
  qed
  moreover have "\<exists>ps ts. process_data os repr_float raw =
                 [StPlotlyChart (fig_price (map (\<lambda>cells. Str (cells ! 0)) cellss) ps),
                  StPlotlyChart (fig_time (map (\<lambda>cells. Str (cells ! 0)) cellss) ts),
                  download_button (to_csv os repr_float df)]"
    using process_data_Inr [OF df(1), of os repr_float] unfolding df(2) by blast
  ultimately show "\<exists>df. tabulate raw = Inr df
            \<and> map (\<lambda>r. r ! 0) (data df) = map (\<lambda>cells. Str (cells ! 0)) cellss
            \<and> (\<forall>i<length cellss. data df ! i ! 3 = Str (cellss ! i ! 3)
                  \<and> data df ! i ! 4 = Str (cellss ! i ! 4)
                  \<and> data df ! i ! 5 = Str (cellss ! i ! 5))
            \<and> (\<exists>ps ts. process_data os repr_float raw =
                 [StPlotlyChart (fig_price (map (\<lambda>cells. Str (cells ! 0)) cellss) ps),
                  StPlotlyChart (fig_time (map (\<lambda>cells. Str (cells ! 0)) cellss) ts),
                  download_button (to_csv os repr_float df)])"
    using df by blast
qed

theorem C10_witness:
  "row_fields (py ''  '' @ markdown_row [py '' Cab/Taxi          '', py '' 1200 ''] @ py '' '')
     = [py '' Cab/Taxi          '', py '' 1200 '']
   \<and> (\<exists>df. tabulate (example_table @ [NEWLINE] @ example_trailer @ [NEWLINE]) = Inr df
         \<and> map (\<lambda>r. r ! 0) (data df)
             = [Str (py '' Cab/Taxi ''), Str (py '' Train ''), Str (py '' Bus ''), Str (py '' Flight ''),
                Str (py '' Ola/Uber '')])"
proof -
  note th = C10_fields_not_trimmed [of "py ''  ''" "py '' ''" "[py '' Cab/Taxi          '', py '' 1200 '']"
      "example_table @ [NEWLINE] @ example_trailer @ [NEWLINE]" example_cells Posix "\<lambda>r. []"]
  have h1: "BAR \<notin> set (py ''  '') \<and> BAR \<notin> set (py '' '')
      \<and> [py '' Cab/Taxi          '', py '' 1200 ''] \<noteq> []
      \<and> (\<forall>c\<in>set [py '' Cab/Taxi          '', py '' 1200 '']. BAR \<notin> set c)"
    by (simp add: py_def BAR_def)
  have ne: "example_cells \<noteq> []"
    by (simp add: example_cells_def)
  have h2: "table_data (example_table @ [NEWLINE] @ example_trailer @ [NEWLINE]) = map markdown_row example_cells
      \<and> example_cells \<noteq> [] \<and> (\<forall>cells\<in>set example_cells. six_columns cells)"
    by (intro conjI) (rule example_table_data, rule ne, rule example_six_columns)
  have m: "map (\<lambda>cells. Str (cells ! 0)) example_cells
      = [Str (py '' Cab/Taxi ''), Str (py '' Train ''), Str (py '' Bus ''), Str (py '' Flight ''),
         Str (py '' Ola/Uber '')]"
    by (simp add: example_cells_def)
  have r1: "row_fields (py ''  '' @ markdown_row [py '' Cab/Taxi          '', py '' 1200 ''] @ py '' '')
     = [py '' Cab/Taxi          '', py '' 1200 '']"
    by (rule th [THEN conjunct1, rule_format, OF h1])
  from th [THEN conjunct2, rule_format, OF h2]
  obtain df where d: "tabulate (example_table @ [NEWLINE] @ example_trailer @ [NEWLINE]) = Inr df
      \<and> map (\<lambda>r. r ! 0) (data df) = map (\<lambda>cells. Str (cells ! 0)) example_cells
      \<and> (\<forall>i<length example_cells. data df ! i ! 3 = Str (example_cells ! i ! 3)
                  \<and> data df ! i ! 4 = Str (example_cells ! i ! 4)
                  \<and> data df ! i ! 5 = Str (example_cells ! i ! 5))
      \<and> (\<exists>ps ts. process_data Posix (\<lambda>r. []) (example_table @ [NEWLINE] @ example_trailer @ [NEWLINE]) =
                 [StPlotlyChart (fig_price (map (\<lambda>cells. Str (cells ! 0)) example_cells) ps),
                  StPlotlyChart (fig_time (map (\<lambda>cells. Str (cells ! 0)) example_cells) ts),
                  download_button (to_csv Posix (\<lambda>r. []) df)])" ..
  have "\<exists>df. tabulate (example_table @ [NEWLINE] @ example_trailer @ [NEWLINE]) = Inr df
         \<and> map (\<lambda>r. r ! 0) (data df)
             = [Str (py '' Cab/Taxi ''), Str (py '' Train ''), Str (py '' Bus ''), Str (py '' Flight ''),
                Str (py '' Ola/Uber '')]"
    using d [THEN conjunct1] d [THEN conjunct2, THEN conjunct1] unfolding m
    by (intro exI [of _ df] conjI)
  with r1 show ?thesis by (rule conjI)
qed

section \<open>One record for each kept line\<close>

lemma DataFrame_length: "DataFrame rows cols = Inr df \<Longrightarrow> length (data df) = length rows"
  by (auto simp: DataFrame_def Let_def split: if_splits)

lemma coerce_column_length:
  "coerce_column df name = Inr df' \<Longrightarrow> length (data df') = length (data df)"
  by (auto simp: coerce_column_def get_column_def set_column_def length_to_numeric
      length_str_replace split: option.splits)

lemma tabulate_length: "tabulate raw = Inr df \<Longrightarrow> length (data df) = length (table_data raw)"
  by (auto simp: tabulate_def rows_of_def split: sum.splits
      dest!: DataFrame_length coerce_column_length)

lemma length_table_data: "length (table_data raw) = length (split (strip raw) NEWLINE) - 3"
  by (simp add: table_data_def py_slice_2_m1)

lemma table_data_at_most_three: "length (split (strip raw) NEWLINE) \<le> 3 \<Longrightarrow> table_data raw = []"
  using length_table_data [of raw] by simp

lemma example_tabulate: "tabulate example_reply = Inr example_frame"
proof -
  have td: "table_data example_reply = map markdown_row example_cells"
    unfolding example_reply_def by (rule example_table_data)
  have ne: "example_cells \<noteq> []" by (simp add: example_cells_def)
  have pc: "to_numeric (str_replace (map (\<lambda>r. Str (r ! 1)) example_cells))
      = [FloatVal 1200, FloatVal 300, FloatVal 250, Missing, FloatVal 1500]"
    by (simp add: example_cells_def to_numeric_def str_replace_def re_sub_runs_filter
        non_numeric_def coercion_eval)
  have tc: "to_numeric (str_replace (map (\<lambda>r. Str (r ! 2)) example_cells))
      = [FloatVal (5 / 2), FloatVal 3, FloatVal 4, Missing, FloatVal (5 / 2)]"
    by (simp add: example_cells_def to_numeric_def str_replace_def re_sub_runs_filter
        non_numeric_def coercion_eval)
  have "map (\<lambda>(r, p, t). [Str (r ! 0), p, t, Str (r ! 3), Str (r ! 4), Str (r ! 5)])
          (zip example_cells
            (zip [FloatVal 1200, FloatVal 300, FloatVal 250, Missing, FloatVal 1500]
                 [FloatVal (5 / 2), FloatVal 3, FloatVal 4, Missing, FloatVal (5 / 2)]))
        = data example_frame"
    by (simp add: example_cells_def example_frame_def)
  then show ?thesis
    using tabulate_rows [OF td ne example_six_columns] unfolding pc tc
    by (simp add: example_frame_def)
qed

section \<open>C9: a failed generation is tabulated all the same\<close>

lemma set_strip: "set (strip s) \<subseteq> set s"
  by (auto simp: strip_def dest!: set_dropWhileD)

lemma single_line: "NEWLINE \<notin> set s \<Longrightarrow> split (strip s) NEWLINE = [strip s]"
  using set_strip [of s] by (intro split_no_sep) auto

lemma error_prefix_no_newline: "NEWLINE \<notin> set (py ''An error occurred: '')"
  by (simp add: py_def NEWLINE_def)

lemma process_data_cases:
  "(\<exists>df. tabulate raw = Inr df
       \<and> process_data os repr_float raw =
         [StPlotlyChart (fig_price (map (\<lambda>r. r ! 0) (data df)) (map (\<lambda>r. r ! 1) (data df))),
          StPlotlyChart (fig_time (map (\<lambda>r. r ! 0) (data df)) (map (\<lambda>r. r ! 2) (data df))),
          download_button (to_csv os repr_float df)])
   \<or> (\<exists>e. tabulate raw = Inl e \<and> process_data os repr_float raw = [processing_error e])"
proof (cases "tabulate raw")
  case (Inl e)
  then show ?thesis by (simp add: process_data_Inl)
next
  case (Inr df)
  then show ?thesis using process_data_Inr [OF Inr, of os repr_float] by simp
qed

text \<open>
  C9, as the claim states it, names two outcomes for an error string: an empty table
  with charts and a CSV, or a tabulation error. There is a third one. The cause of the
  exception is any text; when it has lines and one of the kept lines is a row of six
  columns, the Tabulator builds a table that is not empty, and no error is shown.
\<close>

theorem C9_table_in_error_counterexample:
  "get_travel_recommendations
      (\<lambda>s d. Raises (py ''bad request'' @ [NEWLINE] @ py ''details:'' @ [NEWLINE]
                       @ py ''|1|2|3|4|5|6|'' @ [NEWLINE] @ py ''end''))
      (py ''Mumbai'') (py ''Pune'') []
     = (py ''An error occurred: '' @ py ''bad request'' @ [NEWLINE] @ py ''details:'' @ [NEWLINE]
          @ py ''|1|2|3|4|5|6|'' @ [NEWLINE] @ py ''end'',
        [(py ''Mumbai'', py ''Pune'')])
   \<and> tabulate (py ''An error occurred: '' @ py ''bad request'' @ [NEWLINE] @ py ''details:'' @ [NEWLINE]
          @ py ''|1|2|3|4|5|6|'' @ [NEWLINE] @ py ''end'')
     = Inr \<lparr>columns = column_names,
            data = [[Str (py ''1''), IntVal 2, IntVal 3, Str (py ''4''), Str (py ''5''), Str (py ''6'')]]\<rparr>"
proof -
  have r: "rows_of (table_data (py ''An error occurred: '' @ py ''bad request'' @ [NEWLINE]
          @ py ''details:'' @ [NEWLINE] @ py ''|1|2|3|4|5|6|'' @ [NEWLINE] @ py ''end''))
     = [[py ''1'', py ''2'', py ''3'', py ''4'', py ''5'', py ''6'']]"
    by (simp add: rows_of_def row_fields_def table_data_def py_slice_2_m1 py_slice_1_m1 strip_def
        isspace_def py_def NEWLINE_def BAR_def)
  have "tabulate (py ''An error occurred: '' @ py ''bad request'' @ [NEWLINE] @ py ''details:'' @ [NEWLINE]
          @ py ''|1|2|3|4|5|6|'' @ [NEWLINE] @ py ''end'')
     = Inr \<lparr>columns = column_names,
            data = [[Str (py ''1''), IntVal 2, IntVal 3, Str (py ''4''), Str (py ''5''), Str (py ''6'')]]\<rparr>"
    using tabulate_uniform [OF r]
    by (simp add: to_numeric_def str_replace_def re_sub_runs_filter non_numeric_def coercion_eval)
  then show ?thesis
    by (simp add: get_travel_recommendations_def)
qed

text \<open>
  C9, amended: when the generation call fails, the app does not skip tabulation. The
  string \<open>An error occurred: \<close> followed by the cause is written to the page and passed
  to the Tabulator like a reply of the model, and the tabulation step runs on it: it
  produces either a table with both charts and the CSV download, or a tabulation
  error. A table that is produced has one record for each kept line, that is, three
  fewer than the lines of the stripped error string. So the table is empty whenever
  the stripped error string has at most three lines, in particular for every cause
  without a newline; and the table is produced and is not empty whenever at least one
  line is kept and the kept lines are all rows of six bar-delimited columns.
\<close>

theorem C9_error_string_is_tabulated:
  assumes "travel_chain source destination = Raises cause" "source \<noteq> []" "destination \<noteq> []"
  shows "page (on_click os repr_float travel_chain source destination) =
      [StWrite (py ''Generating travel options from **'' @ source @ py ''** to **''
         @ destination @ py ''**...''),
       StWrite (py ''### Travel Recommendations:''),
       StWrite (py ''An error occurred: '' @ cause)]
      @ process_data os repr_float (py ''An error occurred: '' @ cause)
    \<and> ((\<exists>df. tabulate (py ''An error occurred: '' @ cause) = Inr df
          \<and> process_data os repr_float (py ''An error occurred: '' @ cause) =
            [StPlotlyChart (fig_price (map (\<lambda>r. r ! 0) (data df)) (map (\<lambda>r. r ! 1) (data df))),
             StPlotlyChart (fig_time (map (\<lambda>r. r ! 0) (data df)) (map (\<lambda>r. r ! 2) (data df))),
             download_button (to_csv os repr_float df)])
       \<or> (\<exists>e. tabulate (py ''An error occurred: '' @ cause) = Inl e
          \<and> process_data os repr_float (py ''An error occurred: '' @ cause) = [processing_error e]))
    \<and> (length (split (strip (py ''An error occurred: '' @ cause)) NEWLINE) \<le> 3 \<longrightarrow>
          tabulate (py ''An error occurred: '' @ cause) = Inr \<lparr>columns = column_names, data = []\<rparr>)
    \<and> (NEWLINE \<notin> set cause \<longrightarrow>
          tabulate (py ''An error occurred: '' @ cause) = Inr \<lparr>columns = column_names, data = []\<rparr>)
    \<and> (\<forall>df. tabulate (py ''An error occurred: '' @ cause) = Inr df \<longrightarrow>
          length (data df) = length (split (strip (py ''An error occurred: '' @ cause)) NEWLINE) - 3)
    \<and> (table_data (py ''An error occurred: '' @ cause) = map markdown_row cellss \<and> cellss \<noteq> []
          \<and> (\<forall>cells\<in>set cellss. six_columns cells) \<longrightarrow>
        (\<exists>df. tabulate (py ''An error occurred: '' @ cause) = Inr df
           \<and> length (data df) = length cellss \<and> data df \<noteq> []
           \<and> map (\<lambda>r. r ! 0) (data df) = map (\<lambda>cells. Str (cells ! 0)) cellss))"
proof -
  let ?recs = "py ''An error occurred: '' @ cause"
  have a: "page (on_click os repr_float travel_chain source destination) =
      [StWrite (py ''Generating travel options from **'' @ source @ py ''** to **''
         @ destination @ py ''**...''),
       StWrite (py ''### Travel Recommendations:''),
       StWrite ?recs]
      @ process_data os repr_float ?recs"
    using assms by (simp add: on_click_def get_travel_recommendations_def)
  have c: "tabulate ?recs = Inr \<lparr>columns = column_names, data = []\<rparr>"
    if "length (split (strip ?recs) NEWLINE) \<le> 3"
    using that by (simp add: table_data_at_most_three tabulate_no_rows)
  have d: "tabulate ?recs = Inr \<lparr>columns = column_names, data = []\<rparr>"
    if "NEWLINE \<notin> set cause"
  proof -
    from that have "NEWLINE \<notin> set ?recs"
      using error_prefix_no_newline by simp
    then have "length (split (strip ?recs) NEWLINE) \<le> 3"
      by (simp add: single_line)
    then show ?thesis by (rule c)
  qed
  have e: "length (data df) = length (split (strip ?recs) NEWLINE) - 3"
    if "tabulate ?recs = Inr df" for df
    using tabulate_length [OF that] by (simp add: length_table_data)
  have f: "\<exists>df. tabulate ?recs = Inr df
           \<and> length (data df) = length cellss \<and> data df \<noteq> []
           \<and> map (\<lambda>r. r ! 0) (data df) = map (\<lambda>cells. Str (cells ! 0)) cellss"
    if h: "table_data ?recs = map markdown_row cellss \<and> cellss \<noteq> []
          \<and> (\<forall>cells\<in>set cellss. six_columns cells)"
  proof -
    from records_of_rows [of ?recs cellss] h
    obtain df where df: "tabulate ?recs = Inr df" "length (data df) = length cellss"
      "map (\<lambda>r. r ! 0) (data df) = map (\<lambda>cells. Str (cells ! 0)) cellss"
      by blast
    from df(2) h have "data df \<noteq> []" by auto
    with df show ?thesis by blast
  qed
  from a process_data_cases [of ?recs os repr_float] c d e f
  show ?thesis by blast
qed

text \<open>The amended C9 on a cause of one line, and on a cause of four lines whose third line
  is a row of six columns.\<close>

theorem C9_witness:
  "page (on_click Posix (\<lambda>r. []) (\<lambda>s d. Raises (py ''429 quota exceeded'')) (py ''Mumbai'') (py ''Pune'')) =
      [StWrite (py ''Generating travel options from **'' @ py ''Mumbai'' @ py ''** to **''
         @ py ''Pune'' @ py ''**...''),
       StWrite (py ''### Travel Recommendations:''),
       StWrite (py ''An error occurred: '' @ py ''429 quota exceeded'')]
      @ process_data Posix (\<lambda>r. []) (py ''An error occurred: '' @ py ''429 quota exceeded'')
   \<and> tabulate (py ''An error occurred: '' @ py ''429 quota exceeded'')
       = Inr \<lparr>columns = column_names, data = []\<rparr>
   \<and> table_data (py ''An error occurred: '' @ (py ''bad request'' @ [NEWLINE] @ py ''details:'' @ [NEWLINE]
          @ py ''|1|2|3|4|5|6|'' @ [NEWLINE] @ py ''end''))
       = map markdown_row [[py ''1'', py ''2'', py ''3'', py ''4'', py ''5'', py ''6'']]
   \<and> (\<exists>df. tabulate (py ''An error occurred: '' @ (py ''bad request'' @ [NEWLINE] @ py ''details:''
            @ [NEWLINE] @ py ''|1|2|3|4|5|6|'' @ [NEWLINE] @ py ''end'')) = Inr df
         \<and> length (data df) = 1 \<and> data df \<noteq> []
         \<and> map (\<lambda>r. r ! 0) (data df) = [Str (py ''1'')])"
proof -
  have h1: "(\<lambda>s d. Raises (py ''429 quota exceeded'')) (py ''Mumbai'') (py ''Pune'')
      = Raises (py ''429 quota exceeded'')"
    by simp
  have h1': "(\<lambda>s d. Raises (py ''bad request'' @ [NEWLINE] @ py ''details:'' @ [NEWLINE]
          @ py ''|1|2|3|4|5|6|'' @ [NEWLINE] @ py ''end'')) (py ''Mumbai'') (py ''Pune'')
      = Raises (py ''bad request'' @ [NEWLINE] @ py ''details:'' @ [NEWLINE]
          @ py ''|1|2|3|4|5|6|'' @ [NEWLINE] @ py ''end'')"
    by simp
  have h2: "py ''Mumbai'' \<noteq> []" and h3: "py ''Pune'' \<noteq> []"
    by (simp_all add: py_def)
  have h4: "NEWLINE \<notin> set (py ''429 quota exceeded'')"
    by (simp add: py_def NEWLINE_def)
  have td: "table_data (py ''An error occurred: '' @ (py ''bad request'' @ [NEWLINE] @ py ''details:'' @ [NEWLINE]
          @ py ''|1|2|3|4|5|6|'' @ [NEWLINE] @ py ''end''))
       = map markdown_row [[py ''1'', py ''2'', py ''3'', py ''4'', py ''5'', py ''6'']]"
    by (simp add: table_data_def py_slice_2_m1 strip_def isspace_def py_def NEWLINE_def
        markdown_row_def BAR_def)
  have h5: "table_data (py ''An error occurred: '' @ (py ''bad request'' @ [NEWLINE] @ py ''details:'' @ [NEWLINE]
          @ py ''|1|2|3|4|5|6|'' @ [NEWLINE] @ py ''end''))
       = map markdown_row [[py ''1'', py ''2'', py ''3'', py ''4'', py ''5'', py ''6'']]
      \<and> [[py ''1'', py ''2'', py ''3'', py ''4'', py ''5'', py ''6'']] \<noteq> []
      \<and> (\<forall>cells\<in>set [[py ''1'', py ''2'', py ''3'', py ''4'', py ''5'', py ''6'']]. six_columns cells)"
    using td by (simp add: six_columns_def py_def BAR_def NEWLINE_def)
  note t1 = C9_error_string_is_tabulated [OF h1 h2 h3, where os = Posix and repr_float = "\<lambda>r. []"]
  note t2 = C9_error_string_is_tabulated [OF h1' h2 h3, where os = Posix and repr_float = "\<lambda>r. []"
      and cellss = "[[py ''1'', py ''2'', py ''3'', py ''4'', py ''5'', py ''6'']]"]
  have a: "tabulate (py ''An error occurred: '' @ py ''429 quota exceeded'')
       = Inr \<lparr>columns = column_names, data = []\<rparr>"
    by (rule t1 [THEN conjunct2, THEN conjunct2, THEN conjunct2, THEN conjunct1, rule_format, OF h4])
  have b: "\<exists>df. tabulate (py ''An error occurred: '' @ (py ''bad request'' @ [NEWLINE] @ py ''details:''
            @ [NEWLINE] @ py ''|1|2|3|4|5|6|'' @ [NEWLINE] @ py ''end'')) = Inr df
         \<and> length (data df) = 1 \<and> data df \<noteq> []
         \<and> map (\<lambda>r. r ! 0) (data df) = [Str (py ''1'')]"
    using t2 [THEN conjunct2, THEN conjunct2, THEN conjunct2, THEN conjunct2, THEN conjunct2,
        rule_format, OF h5]
    by simp
  from t1 [THEN conjunct1] a td b show ?thesis by (intro conjI)
qed

section \<open>C8: the same text gives the same records\<close>

text \<open>
  C8: the tabulation reads nothing but the raw text. Two presses of the button whose
  generation step returns the same text, with whatever queries and whatever behaviour
  of the service, show identical records. If the text tabulates to a frame, both
  pages show that one frame: it has the six named columns and one record for each
  kept line, and the charts of both pages have its Travel Type column as categories
  and its coerced Price and Time columns as values, and both downloads are its CSV. If
  the tabulation fails, both pages show the same error. For kept lines that are rows
  of six columns the records are, on both pages, the cells of those rows in their
  order, with the numbers that the coercion reads from the Price and Time cells.
\<close>

theorem C8_same_text_same_records:
  assumes "source1 \<noteq> []" "destination1 \<noteq> []" "source2 \<noteq> []" "destination2 \<noteq> []"
    "fst (get_travel_recommendations chain1 source1 destination1 []) = raw"
    "fst (get_travel_recommendations chain2 source2 destination2 []) = raw"
  shows "drop 3 (page (on_click os repr_float chain1 source1 destination1))
        = drop 3 (page (on_click os repr_float chain2 source2 destination2))
    \<and> (\<forall>df. tabulate raw = Inr df \<longrightarrow>
          columns df = column_names \<and> length (data df) = length (table_data raw)
          \<and> drop 3 (page (on_click os repr_float chain1 source1 destination1)) =
              [StPlotlyChart (fig_price (map (\<lambda>r. r ! 0) (data df)) (map (\<lambda>r. r ! 1) (data df))),
               StPlotlyChart (fig_time (map (\<lambda>r. r ! 0) (data df)) (map (\<lambda>r. r ! 2) (data df))),
               download_button (to_csv os repr_float df)]
          \<and> drop 3 (page (on_click os repr_float chain2 source2 destination2)) =
              [StPlotlyChart (fig_price (map (\<lambda>r. r ! 0) (data df)) (map (\<lambda>r. r ! 1) (data df))),
               StPlotlyChart (fig_time (map (\<lambda>r. r ! 0) (data df)) (map (\<lambda>r. r ! 2) (data df))),
               download_button (to_csv os repr_float df)])
    \<and> (\<forall>e. tabulate raw = Inl e \<longrightarrow>
          drop 3 (page (on_click os repr_float chain1 source1 destination1)) = [processing_error e]
          \<and> drop 3 (page (on_click os repr_float chain2 source2 destination2)) = [processing_error e])
    \<and> (table_data raw = map markdown_row cellss \<and> cellss \<noteq> []
          \<and> (\<forall>cells\<in>set cellss. six_columns cells) \<longrightarrow>
        (\<exists>df. tabulate raw = Inr df \<and> columns df = column_names
           \<and> length (data df) = length cellss
           \<and> (\<forall>i<length cellss.
                 data df ! i = [Str (cellss ! i ! 0), data df ! i ! 1, data df ! i ! 2,
                                Str (cellss ! i ! 3), Str (cellss ! i ! 4), Str (cellss ! i ! 5)]
               \<and> number_of (data df ! i ! 1) = number_of (coerce_cell (cellss ! i ! 1))
               \<and> number_of (data df ! i ! 2) = number_of (coerce_cell (cellss ! i ! 2)))
           \<and> drop 3 (page (on_click os repr_float chain1 source1 destination1)) =
              [StPlotlyChart (fig_price (map (\<lambda>r. r ! 0) (data df)) (map (\<lambda>r. r ! 1) (data df))),
               StPlotlyChart (fig_time (map (\<lambda>r. r ! 0) (data df)) (map (\<lambda>r. r ! 2) (data df))),
               download_button (to_csv os repr_float df)]
           \<and> drop 3 (page (on_click os repr_float chain2 source2 destination2)) =
              [StPlotlyChart (fig_price (map (\<lambda>r. r ! 0) (data df)) (map (\<lambda>r. r ! 1) (data df))),
               StPlotlyChart (fig_time (map (\<lambda>r. r ! 0) (data df)) (map (\<lambda>r. r ! 2) (data df))),
               download_button (to_csv os repr_float df)]))"
proof -
  have p1: "drop 3 (page (on_click os repr_float chain1 source1 destination1)) = process_data os repr_float raw"
    using assms(1,2,5) by (simp add: on_click_def case_prod_beta Let_def)
  have p2: "drop 3 (page (on_click os repr_float chain2 source2 destination2)) = process_data os repr_float raw"
    using assms(3,4,6) by (simp add: on_click_def case_prod_beta Let_def)
  have a: "columns df = column_names \<and> length (data df) = length (table_data raw)
      \<and> process_data os repr_float raw =
              [StPlotlyChart (fig_price (map (\<lambda>r. r ! 0) (data df)) (map (\<lambda>r. r ! 1) (data df))),
               StPlotlyChart (fig_time (map (\<lambda>r. r ! 0) (data df)) (map (\<lambda>r. r ! 2) (data df))),
               download_button (to_csv os repr_float df)]"
    if "tabulate raw = Inr df" for df
    using that tabulate_columns [OF that] tabulate_length [OF that]
      process_data_Inr [OF that, of os repr_float]
    by simp
  have b: "process_data os repr_float raw = [processing_error e]" if "tabulate raw = Inl e" for e
    using that by (rule process_data_Inl)
  have c: "\<exists>df. tabulate raw = Inr df \<and> columns df = column_names
           \<and> length (data df) = length cellss
           \<and> (\<forall>i<length cellss.
                 data df ! i = [Str (cellss ! i ! 0), data df ! i ! 1, data df ! i ! 2,
                                Str (cellss ! i ! 3), Str (cellss ! i ! 4), Str (cellss ! i ! 5)]
               \<and> number_of (data df ! i ! 1) = number_of (coerce_cell (cellss ! i ! 1))
               \<and> number_of (data df ! i ! 2) = number_of (coerce_cell (cellss ! i ! 2)))
           \<and> process_data os repr_float raw =
              [StPlotlyChart (fig_price (map (\<lambda>r. r ! 0) (data df)) (map (\<lambda>r. r ! 1) (data df))),
               StPlotlyChart (fig_time (map (\<lambda>r. r ! 0) (data df)) (map (\<lambda>r. r ! 2) (data df))),
               download_button (to_csv os repr_float df)]"
    if h: "table_data raw = map markdown_row cellss \<and> cellss \<noteq> []
          \<and> (\<forall>cells\<in>set cellss. six_columns cells)"
  proof -
    from records_of_rows [of raw cellss] h
    obtain df where df: "tabulate raw = Inr df" "columns df = column_names"
      "length (data df) = length cellss"
      "\<forall>i<length cellss.
                 data df ! i = [Str (cellss ! i ! 0), data df ! i ! 1, data df ! i ! 2,
                                Str (cellss ! i ! 3), Str (cellss ! i ! 4), Str (cellss ! i ! 5)]
               \<and> number_of (data df ! i ! 1) = number_of (coerce_cell (cellss ! i ! 1))
               \<and> number_of (data df ! i ! 2) = number_of (coerce_cell (cellss ! i ! 2))"
      by blast
    with a [OF df(1)] show ?thesis by blast
  qed
  show ?thesis
    unfolding p1 p2 using a b c by blast
qed

text \<open>C8 on the example reply, returned once as a string and once under the key
  \<open>text\<close>, for two different queries: five records on both pages.\<close>

theorem C8_witness:
  "fst (get_travel_recommendations (\<lambda>s d. Returns (StrResponse example_reply)) (py ''Mumbai'') (py ''Pune'') [])
     = example_reply
   \<and> fst (get_travel_recommendations (\<lambda>s d. Returns (DictResponse [(py ''text'', example_reply)]))
          (py ''Delhi'') (py ''Agra'') [])
     = example_reply
   \<and> tabulate example_reply = Inr example_frame
   \<and> length (data example_frame) = 5
   \<and> drop 3 (page (on_click Posix (\<lambda>r. []) (\<lambda>s d. Returns (StrResponse example_reply))
         (py ''Mumbai'') (py ''Pune''))) =
       [StPlotlyChart (fig_price
          [Str (py '' Cab/Taxi ''), Str (py '' Train ''), Str (py '' Bus ''), Str (py '' Flight ''),
           Str (py '' Ola/Uber '')]
          [FloatVal 1200, FloatVal 300, FloatVal 250, Missing, FloatVal 1500]),
        StPlotlyChart (fig_time
          [Str (py '' Cab/Taxi ''), Str (py '' Train ''), Str (py '' Bus ''), Str (py '' Flight ''),
           Str (py '' Ola/Uber '')]
          [FloatVal (5 / 2), FloatVal 3, FloatVal 4, Missing, FloatVal (5 / 2)]),
        download_button (to_csv Posix (\<lambda>r. []) example_frame)]
   \<and> drop 3 (page (on_click Posix (\<lambda>r. []) (\<lambda>s d. Returns (DictResponse [(py ''text'', example_reply)]))
         (py ''Delhi'') (py ''Agra''))) =
       [StPlotlyChart (fig_price
          [Str (py '' Cab/Taxi ''), Str (py '' Train ''), Str (py '' Bus ''), Str (py '' Flight ''),
           Str (py '' Ola/Uber '')]
          [FloatVal 1200, FloatVal 300, FloatVal 250, Missing, FloatVal 1500]),
        StPlotlyChart (fig_time
          [Str (py '' Cab/Taxi ''), Str (py '' Train ''), Str (py '' Bus ''), Str (py '' Flight ''),
           Str (py '' Ola/Uber '')]
          [FloatVal (5 / 2), FloatVal 3, FloatVal 4, Missing, FloatVal (5 / 2)]),
        download_button (to_csv Posix (\<lambda>r. []) example_frame)]"
proof -
  have h: "py ''Mumbai'' \<noteq> []" "py ''Pune'' \<noteq> []" "py ''Delhi'' \<noteq> []" "py ''Agra'' \<noteq> []"
    by (simp_all add: py_def)
  have g1: "fst (get_travel_recommendations (\<lambda>s d. Returns (StrResponse example_reply)) (py ''Mumbai'')
      (py ''Pune'') []) = example_reply"
    by (simp add: get_travel_recommendations_def)
  have g2: "fst (get_travel_recommendations (\<lambda>s d. Returns (DictResponse [(py ''text'', example_reply)]))
          (py ''Delhi'') (py ''Agra'') []) = example_reply"
    by (simp add: get_travel_recommendations_def)
  have x: "map (\<lambda>r. r ! 0) (data example_frame) =
      [Str (py '' Cab/Taxi ''), Str (py '' Train ''), Str (py '' Bus ''), Str (py '' Flight ''),
       Str (py '' Ola/Uber '')]"
    and p: "map (\<lambda>r. r ! 1) (data example_frame) =
      [FloatVal 1200, FloatVal 300, FloatVal 250, Missing, FloatVal 1500]"
    and t: "map (\<lambda>r. r ! 2) (data example_frame) =
      [FloatVal (5 / 2), FloatVal 3, FloatVal 4, Missing, FloatVal (5 / 2)]"
    and l: "length (data example_frame) = 5"
    by (simp_all add: example_frame_def)
  note th = C8_same_text_same_records [OF h g1 g2, where os = Posix and repr_float = "\<lambda>r. []"]
  note fr = th [THEN conjunct2, THEN conjunct1, rule_format, OF example_tabulate]
  from g1 g2 example_tabulate l
    fr [THEN conjunct2, THEN conjunct2, THEN conjunct1, unfolded x p t]
    fr [THEN conjunct2, THEN conjunct2, THEN conjunct2, unfolded x p t]
  show ?thesis by (intro conjI)
qed

end
